theory Spec2Isabelle
  imports Main "HOL-Library.Word"
begin

section \<open>The boot-time OTA client \<open>http_simple_ota.ino\<close>\<close>

text \<open>
  The sketch targets the ESP32, where \<open>int\<close>, \<open>unsigned\<close> and \<open>size_t\<close> are all 32 bits
  wide. Both are modelled as \<open>32 word\<close>: a \<open>size_t\<close> is read with \<open>unat\<close> and compared
  with the (unsigned) order of words, an \<open>int\<close> is read with \<open>sint\<close>. A conversion between
  the two keeps the bits, as in C++.
\<close>

type_synonym size_t = "32 word"
type_synonym c_int = "32 word"

subsection \<open>What the device does to the outside world\<close>

text \<open>
  The lines printed on the serial port, one constructor for each format string of
  \<open>performHttpUpdate\<close> and \<open>checkForUpdate\<close>, with the values printed.
\<close>

datatype message =
    MsgUnsupportedScheme
  | MsgChecking string
  | MsgHttpBeginFailed
  | MsgNoUpdate c_int
  | MsgFirmwareSize c_int
  | MsgSizeUnknown
  | MsgBeginFailed
  | MsgWriteError
  | MsgEndFailed
  | MsgNotFinished
  | MsgSuccess "32 word"
  | MsgNotConfigured

text \<open>
  The calls with an effect, in the order in which they are made. A call on \<open>Update\<close>
  that returns a value is recorded with the value it returned; \<open>UpdateWrite n a\<close> is
  \<open>Update.write(buffer, n)\<close> returning \<open>a\<close>.
\<close>

datatype event =
    SerialPrint message
  | SetInsecure
  | SetConnectTimeout nat
  | HttpBegin string bool
  | AddHeader string string
  | HttpGET c_int
  | HttpEnd
  | UpdateBegin size_t bool
  | UpdateWrite size_t size_t
  | UpdateAbort
  | UpdateEnd bool
  | UpdateIsFinished bool
  | Delay nat
  | EspRestart

text \<open>
  How a call of \<open>performHttpUpdate\<close> ends: with a \<open>return\<close> statement, or in
  \<open>ESP.restart()\<close>, which does not come back (the \<open>return true\<close> after it is marked
  unreachable in the source).
\<close>

datatype exit = Return bool | Restarted

subsection \<open>The collaborators\<close>

text \<open>
  \<open>HTTPClient\<close>, \<open>WiFiClient\<close> and \<open>Update\<close> belong to the Arduino core, not to this
  repository, so their behaviour is a parameter of the model.

  The network stream is read once per iteration of the copy loop. Its answers are
  indexed by the number of that iteration: \<open>available env i\<close> is what
  \<open>stream->available()\<close> returns in iteration \<open>i\<close>, \<open>connected env i\<close> what
  \<open>stream->connected()\<close> returns, and \<open>readBytes env i n\<close> what
  \<open>stream->readBytes(buffer, n)\<close> returns. Nothing is assumed about them.

  The update partition is a state machine over a state of type \<open>'u\<close>. The macros
  \<open>UPDATE_SIZE_UNKNOWN\<close> of \<open>Update.h\<close> and \<open>HTTP_CODE_OK\<close> of \<open>HTTPClient.h\<close> are
  parameters as well.

  The bytes themselves are not modelled: the buffer filled by \<open>readBytes\<close> is handed to
  \<open>Update.write\<close> unchanged, and the control flow depends on the counts only.
\<close>

record 'u env =
  HTTP_CODE_OK :: c_int
  UPDATE_SIZE_UNKNOWN :: size_t
  http_begin :: "string \<Rightarrow> bool"
  http_GET :: c_int
  http_getSize :: c_int
  available :: "nat \<Rightarrow> c_int"
  connected :: "nat \<Rightarrow> bool"
  readBytes :: "nat \<Rightarrow> size_t \<Rightarrow> size_t"
  Update_begin :: "size_t \<Rightarrow> 'u \<Rightarrow> bool \<times> 'u"
  Update_write :: "size_t \<Rightarrow> 'u \<Rightarrow> size_t \<times> 'u"
  Update_end :: "'u \<Rightarrow> bool \<times> 'u"
  Update_isFinished :: "'u \<Rightarrow> bool"
  Update_abort :: "'u \<Rightarrow> 'u"

subsection \<open>The copy loop (lines 129 to 149)\<close>

text \<open>
  The variables of the loop: the number of the iteration, the state of the update
  partition, \<open>totalWritten\<close>, and the calls made so far.
\<close>

record 'u session =
  polls :: nat
  partition :: 'u
  totalWritten :: size_t
  events :: "event list"

datatype 'u loop_exit = LoopBreak "'u session" | LoopReturnFalse "'u session"

datatype 'u iteration = Continue "'u session" | Exit "'u loop_exit"

definition sizeof_buffer :: size_t where
  "sizeof_buffer = 2048"

text \<open>One iteration of \<open>while (true)\<close>.\<close>

definition copy_step :: "'u env \<Rightarrow> 'u session \<Rightarrow> 'u iteration" where
  "copy_step env s =
     (let avail = available env (polls s) in
      if avail = 0 then
        (if \<not> connected env (polls s) then Exit (LoopBreak s)
         else Continue (s\<lparr>polls := Suc (polls s), events := events s @ [Delay 10]\<rparr>))
      else
        (let avail' = (if sizeof_buffer < avail then sizeof_buffer else avail);
             bytesRead = readBytes env (polls s) avail'
         in if sint bytesRead \<le> 0 then Exit (LoopBreak s)
            else
              (let (ack, u') = Update_write env bytesRead (partition s) in
               if ack \<noteq> bytesRead then
                 Exit (LoopReturnFalse (s\<lparr>partition := Update_abort env u',
                   events := events s @
                     [UpdateWrite bytesRead ack, SerialPrint MsgWriteError, UpdateAbort, HttpEnd]\<rparr>))
               else
                 Continue (s\<lparr>polls := Suc (polls s), partition := u',
                   totalWritten := totalWritten s + bytesRead,
                   events := events s @ [UpdateWrite bytesRead ack]\<rparr>))))"

text \<open>
  The loop has no bound: a stream that stays connected and never offers a byte keeps it
  running. \<open>None\<close> is the run that never leaves the loop.
\<close>

partial_function (option) copy_loop :: "'u env \<Rightarrow> 'u session \<Rightarrow> 'u loop_exit option" where
  "copy_loop env s =
     (case copy_step env s of
        Exit x \<Rightarrow> Some x
      | Continue s' \<Rightarrow> copy_loop env s')"

declare copy_loop.simps [code]

subsection \<open>After the loop (lines 151 to 168)\<close>

definition finish_update :: "'u env \<Rightarrow> 'u session \<Rightarrow> exit \<times> 'u session" where
  "finish_update env s =
     (let (ok, u1) = Update_end env (partition s) in
      if \<not> ok then
        (Return False, s\<lparr>partition := u1,
           events := events s @ [UpdateEnd ok, SerialPrint MsgEndFailed, HttpEnd]\<rparr>)
      else
        (let fin = Update_isFinished env u1 in
         if \<not> fin then
           (Return False, s\<lparr>partition := u1,
              events := events s @
                [UpdateEnd ok, UpdateIsFinished fin, SerialPrint MsgNotFinished, HttpEnd]\<rparr>)
         else
           (Restarted, s\<lparr>partition := u1,
              events := events s @
                [UpdateEnd ok, UpdateIsFinished fin, SerialPrint (MsgSuccess (totalWritten s)),
                 HttpEnd, Delay 500, EspRestart]\<rparr>)))"

subsection \<open>Beginning the update (lines 114 to 127)\<close>

text \<open>
  The size announced by the server is passed to \<open>Update.begin\<close> when it is positive,
  and \<open>UPDATE_SIZE_UNKNOWN\<close> otherwise. The result is the answer of \<open>Update.begin\<close> and
  the session with which the copy loop starts.
\<close>

definition begin_update :: "'u env \<Rightarrow> 'u \<Rightarrow> bool \<times> 'u session" where
  "begin_update env u0 =
     (let contentLength = http_getSize env;
          known = (0 <s contentLength);
          hint = (if known then contentLength else UPDATE_SIZE_UNKNOWN env);
          (ok, u1) = Update_begin env hint u0
      in (ok, \<lparr>polls = 0, partition = u1, totalWritten = 0,
            events = [SerialPrint (if known then MsgFirmwareSize contentLength else MsgSizeUnknown),
                      UpdateBegin hint ok]\<rparr>))"

subsection \<open>The transfer (lines 114 to 168)\<close>

text \<open>
  The part of \<open>performHttpUpdate\<close> that runs once the server has answered
  \<open>HTTP_CODE_OK\<close>, from the state \<open>u0\<close> of the update partition. Its events are those
  from line 114 on.
\<close>

definition transfer :: "'u env \<Rightarrow> 'u \<Rightarrow> (exit \<times> 'u session) option" where
  "transfer env u0 =
     (let (ok, s0) = begin_update env u0
      in if \<not> ok then
           Some (Return False, s0\<lparr>events := events s0 @ [SerialPrint MsgBeginFailed, HttpEnd]\<rparr>)
         else
           (case copy_loop env s0 of
              None \<Rightarrow> None
            | Some (LoopReturnFalse s) \<Rightarrow> Some (Return False, s)
            | Some (LoopBreak s) \<Rightarrow> Some (finish_update env s)))"

subsection \<open>\<open>performHttpUpdate\<close> (lines 78 to 168)\<close>

definition startsWith :: "string \<Rightarrow> string \<Rightarrow> bool" where
  "startsWith s p = (take (length p) s = p)"

definition device_id :: string where
  "device_id = ''1234567890''"

definition version :: string where
  "version = ''0.1.7''"

definition device_type :: string where
  "device_type = ''esp32s3-zero''"

text \<open>A run that returns before the transfer has written nothing.\<close>

definition returned_early :: "'u \<Rightarrow> event list \<Rightarrow> exit \<times> 'u session" where
  "returned_early u0 ev =
     (Return False, \<lparr>polls = 0, partition = u0, totalWritten = 0, events = ev\<rparr>)"

text \<open>The events \<open>ev\<close> of the caller, followed by those of the run.\<close>

fun preceded :: "event list \<Rightarrow> exit \<times> 'u session \<Rightarrow> exit \<times> 'u session" where
  "preceded ev (x, s) = (x, s\<lparr>events := ev @ events s\<rparr>)"

definition performHttpUpdate :: "'u env \<Rightarrow> string \<Rightarrow> 'u \<Rightarrow> (exit \<times> 'u session) option" where
  "performHttpUpdate env url u0 =
     (if \<not> startsWith url ''http://'' \<and> \<not> startsWith url ''https://'' then
        Some (returned_early u0 [SerialPrint MsgUnsupportedScheme])
      else
        (let ev1 = (if startsWith url ''https://'' then [SetInsecure] else []) @
                   [SetConnectTimeout 10000, SerialPrint (MsgChecking url)];
             began = http_begin env url
         in if \<not> began then
              Some (returned_early u0 (ev1 @ [HttpBegin url began, SerialPrint MsgHttpBeginFailed]))
            else
              (let httpCode = http_GET env;
                   ev2 = ev1 @ [HttpBegin url began,
                            AddHeader ''X-Device-Id'' device_id,
                            AddHeader ''X-Current-Version'' version,
                            HttpGET httpCode]
               in if httpCode \<noteq> HTTP_CODE_OK env then
                    Some (returned_early u0 (ev2 @ [SerialPrint (MsgNoUpdate httpCode), HttpEnd]))
                  else map_option (preceded ev2) (transfer env u0))))"

subsection \<open>The caller: \<open>checkForUpdate\<close> (lines 36 to 53 and 170 to 186)\<close>

text \<open>
  The server, user and repository names are placeholders replaced when the sketch is
  built, so they are parameters. They are string literals, never null pointers.
\<close>

record config =
  OTA_SERVER :: string
  OTA_USER :: string
  OTA_REPO :: string

definition endsWith :: "string \<Rightarrow> string \<Rightarrow> bool" where
  "endsWith s p = (length p \<le> length s \<and> drop (length s - length p) s = p)"

definition repoApiBaseUrl :: "config \<Rightarrow> string" where
  "repoApiBaseUrl cfg =
     (if length (OTA_SERVER cfg) = 0 \<or> length (OTA_USER cfg) = 0 \<or> length (OTA_REPO cfg) = 0
      then []
      else
        (let url = OTA_SERVER cfg;
             url = (if \<not> endsWith url ''/'' then url @ ''/'' else url)
         in url @ ''api/users/'' @ OTA_USER cfg @ ''/repos/'' @ OTA_REPO cfg))"

definition firmwareEndpointUrl :: "config \<Rightarrow> string" where
  "firmwareEndpointUrl cfg =
     (let url = repoApiBaseUrl cfg in
      if length url = 0 then url else url @ ''/firmware'')"

text \<open>
  \<open>checkForUpdate\<close> returns nothing; the result of the model is what
  \<open>performHttpUpdate\<close> did, to which \<open>checkForUpdate\<close> adds no call of its own.
\<close>

definition checkForUpdate :: "config \<Rightarrow> 'u env \<Rightarrow> 'u \<Rightarrow> (exit \<times> 'u session) option" where
  "checkForUpdate cfg env u0 =
     (let url = firmwareEndpointUrl cfg in
      if length url = 0 then
        Some (returned_early u0 [SerialPrint MsgNotConfigured])
      else
        (let url = url @ (if CHR ''?'' \<notin> set url then ''?'' else ''&'');
             url = url @ ''type='' @ device_type @ ''&version='' @ version @
                   ''&device_id='' @ device_id
         in performHttpUpdate env url u0))"

subsection \<open>Observations on a run\<close>

text \<open>How often \<open>Update.abort()\<close> was called.\<close>

definition aborts :: "event list \<Rightarrow> nat" where
  "aborts ev = count_list ev UpdateAbort"

text \<open>The calls of \<open>Update.write\<close> among the events, as pairs of requested and acknowledged count.\<close>

fun writes :: "event list \<Rightarrow> (size_t \<times> size_t) list" where
  "writes [] = []"
| "writes (UpdateWrite n a # ev) = (n, a) # writes ev"
| "writes (e # ev) = writes ev"

text \<open>
  The sum of the acknowledgements of the writes that were acknowledged in full, as a
  natural number (without wrap-around).
\<close>

fun acknowledged :: "event list \<Rightarrow> nat" where
  "acknowledged [] = 0"
| "acknowledged (UpdateWrite n a # ev) = (if a = n then unat a else 0) + acknowledged ev"
| "acknowledged (e # ev) = acknowledged ev"

text \<open>
  The count that \<open>readBytes\<close> returns in iteration \<open>i\<close>, for the length the loop asks
  for; 0 where no bytes are available and \<open>readBytes\<close> is not called.
\<close>

definition chunk :: "'u env \<Rightarrow> nat \<Rightarrow> size_t" where
  "chunk env i =
     (let avail = available env i in
      if avail = 0 then 0
      else readBytes env i (if sizeof_buffer < avail then sizeof_buffer else avail))"

text \<open>
  The number of bytes the stream has handed over in the iterations before \<open>n\<close>: the
  counts returned by \<open>readBytes\<close> that were positive.
\<close>

fun produced :: "'u env \<Rightarrow> nat \<Rightarrow> nat" where
  "produced env 0 = 0"
| "produced env (Suc n) =
     produced env n + (if 0 <s chunk env n then unat (chunk env n) else 0)"

text \<open>The session after \<open>n\<close> more iterations that stay in the loop, if there are that many.\<close>

fun iterations :: "nat \<Rightarrow> 'u env \<Rightarrow> 'u session \<Rightarrow> 'u session option" where
  "iterations 0 env s = Some s"
| "iterations (Suc n) env s =
     (case copy_step env s of
        Continue s' \<Rightarrow> iterations n env s'
      | Exit x \<Rightarrow> None)"

text \<open>
  The events an iteration adds while the loop goes on: the pause of 10 ms, or a write
  that was acknowledged in full.
\<close>

definition loop_events :: "event list \<Rightarrow> bool" where
  "loop_events ws \<longleftrightarrow> (\<forall>e \<in> set ws. e = Delay 10 \<or> (\<exists>k. e = UpdateWrite k k))"


subsection \<open>Sample environments\<close>

text \<open>
  A stream given by the list of its answers, one triple (available, connected,
  readBytes) for each iteration; after the list it is closed. A partition that counts
  the bytes written, acknowledges a write in full while the total stays within \<open>cap\<close>
  and not at all otherwise, and answers \<open>end()\<close> and \<open>isFinished()\<close> with the given
  values.
\<close>

definition scripted :: "(c_int \<times> bool \<times> size_t) list \<Rightarrow> c_int \<Rightarrow> nat \<Rightarrow> bool \<Rightarrow> bool \<Rightarrow> nat env" where
  "scripted script len cap end_ok fin =
     \<lparr>HTTP_CODE_OK = 200,
      UPDATE_SIZE_UNKNOWN = 0xFFFFFFFF,
      http_begin = (\<lambda>url. True),
      http_GET = 200,
      http_getSize = len,
      available = (\<lambda>i. if i < length script then fst (script ! i) else 0),
      connected = (\<lambda>i. i < length script \<and> fst (snd (script ! i))),
      readBytes = (\<lambda>i n. if i < length script then snd (snd (script ! i)) else 0),
      Update_begin = (\<lambda>hint u. (True, 0)),
      Update_write = (\<lambda>n u. if u + unat n \<le> cap then (n, u + unat n) else (0, u)),
      Update_end = (\<lambda>u. (end_ok, u)),
      Update_isFinished = (\<lambda>u. fin),
      Update_abort = (\<lambda>u. 0)\<rparr>"

text \<open>
  The samples used below. \<open>two_chunks\<close> offers 2048 bytes, then nothing for one poll,
  then 4000 bytes of which the buffer takes 2048, and is closed after that.
  \<open>good_run\<close> accepts them; \<open>full_flash\<close> has room for 3000 bytes only. \<open>cut_off\<close> and
  \<open>unfinished\<close> deliver 100 of 4096 announced bytes and close; in the first
  \<open>Update.end()\<close> fails, in the second it succeeds and \<open>Update.isFinished()\<close> fails.
  \<open>read_fails\<close> reports 512 bytes available in its second poll and reads none of them.
  \<open>silent_then_closed\<close> offers nothing for two polls and is closed; \<open>closed_at_once\<close>
  is closed at the first poll. \<open>zero_length\<close> is \<open>good_run\<close> with a content length of
  0. \<open>one_chunk c\<close> offers 100 bytes once and answers \<open>connected\<close> with \<open>c\<close> at that poll.
  \<open>sample_url\<close> is the address \<open>checkForUpdate\<close> builds from \<open>sample_config\<close>.
  \<open>empty_read\<close> reports 512 bytes available at its first poll and reads none of them.
  \<open>flood\<close> delivers \<open>2 ^ 21\<close> chunks of 2048 bytes, \<open>2 ^ 32\<close> bytes in all, to a
  partition that takes them. \<open>refusing ok\<close> delivers 100 bytes and closes, to a partition
  whose \<open>Update.begin\<close> refuses a partition that already holds bytes and whose two
  checks after the loop answer \<open>ok\<close>.
\<close>

definition two_chunks :: "(c_int \<times> bool \<times> size_t) list" where
  "two_chunks = [(2048, True, 2048), (0, True, 0), (4000, True, 2048)]"

definition good_run :: "nat env" where
  "good_run = scripted two_chunks 4096 100000 True True"

definition full_flash :: "nat env" where
  "full_flash = scripted two_chunks 4096 3000 True True"

definition cut_off :: "nat env" where
  "cut_off = scripted [(100, True, 100)] 4096 100000 False False"

definition unfinished :: "nat env" where
  "unfinished = scripted [(100, True, 100)] 4096 100000 True False"

definition read_fails :: "nat env" where
  "read_fails = scripted [(2048, True, 2048), (512, True, 0)] (-1) 100000 True True"

definition silent_then_closed :: "nat env" where
  "silent_then_closed = scripted [(0, True, 0), (0, True, 0)] (-1) 100000 False False"

definition closed_at_once :: "bool \<Rightarrow> bool \<Rightarrow> nat env" where
  "closed_at_once end_ok fin = scripted [] (-1) 100000 end_ok fin"

definition zero_length :: "nat env" where
  "zero_length = scripted two_chunks 0 100000 True True"


definition sample_config :: config where
  "sample_config = \<lparr>OTA_SERVER = ''http://ota.example'', OTA_USER = ''u'', OTA_REPO = ''r''\<rparr>"

definition sample_url :: string where
  "sample_url =
     ''http://ota.example/api/users/u/repos/r/firmware?type=esp32s3-zero&version=0.1.7&device_id=1234567890''"


definition flood :: "nat env" where
  "flood = scripted (replicate (2 ^ 21) (2048, True, 2048)) (-1) (2 ^ 32) True True"


section \<open>Properties\<close>

subsection \<open>The loop, one iteration at a time\<close>

text \<open>
  The body of the loop in terms of \<open>chunk\<close>, the count that \<open>readBytes\<close> returns in an
  iteration.
\<close>

lemma copy_step_chunk:
  "copy_step env s =
     (if available env (polls s) = 0 then
        (if connected env (polls s)
         then Continue (s\<lparr>polls := Suc (polls s), events := events s @ [Delay 10]\<rparr>)
         else Exit (LoopBreak s))
      else if sint (chunk env (polls s)) \<le> 0 then Exit (LoopBreak s)
      else if fst (Update_write env (chunk env (polls s)) (partition s)) \<noteq> chunk env (polls s) then
        Exit (LoopReturnFalse (s\<lparr>partition :=
            Update_abort env (snd (Update_write env (chunk env (polls s)) (partition s))),
          events := events s @
            [UpdateWrite (chunk env (polls s))
               (fst (Update_write env (chunk env (polls s)) (partition s))),
             SerialPrint MsgWriteError, UpdateAbort, HttpEnd]\<rparr>))
      else
        Continue (s\<lparr>polls := Suc (polls s),
          partition := snd (Update_write env (chunk env (polls s)) (partition s)),
          totalWritten := totalWritten s + chunk env (polls s),
          events := events s @ [UpdateWrite (chunk env (polls s)) (chunk env (polls s))]\<rparr>))"
  by (simp add: copy_step_def chunk_def Let_def split: prod.split)

lemma acknowledged_append: "acknowledged (xs @ ys) = acknowledged xs + acknowledged ys"
  by (induction xs rule: acknowledged.induct) simp_all

lemma writes_append: "writes (xs @ ys) = writes xs @ writes ys"
  by (induction xs rule: writes.induct) simp_all

lemma aborts_append: "aborts (xs @ ys) = aborts xs + aborts ys"
  by (simp add: aborts_def)

lemma copy_loop_Exit: "copy_step env s = Exit x \<Longrightarrow> copy_loop env s = Some x"
  by (subst copy_loop.simps) simp

lemma copy_loop_Continue: "copy_step env s = Continue s' \<Longrightarrow> copy_loop env s = copy_loop env s'"
  by (subst copy_loop.simps) simp

lemma iterations_then_exit:
  "iterations n env s = Some s' \<Longrightarrow> copy_step env s' = Exit x \<Longrightarrow> copy_loop env s = Some x"
proof (induction n arbitrary: s)
  case 0
  then show ?case by (simp add: copy_loop_Exit)
next
  case (Suc n)
  then show ?case
    by (auto simp: copy_loop_Continue split: iteration.splits)
qed

lemma copy_loop_iterations:
  assumes "copy_loop env s = Some x"
  shows "\<exists>n s'. iterations n env s = Some s' \<and> copy_step env s' = Exit x"
proof (rule copy_loop.raw_induct [OF _ assms])
  fix loop :: "'a env \<Rightarrow> 'a session \<Rightarrow> 'a loop_exit option" and env s x
  assume IH: "\<And>e t y. loop e t = Some y \<Longrightarrow>
      \<exists>n s'. iterations n e t = Some s' \<and> copy_step e s' = Exit y"
    and unfolded: "(case copy_step env s of Continue s' \<Rightarrow> loop env s' | Exit x \<Rightarrow> Some x) = Some x"
  show "\<exists>n s'. iterations n env s = Some s' \<and> copy_step env s' = Exit x"
  proof (cases "copy_step env s")
    case (Continue s1)
    with unfolded have "loop env s1 = Some x" by simp
    from IH [OF this] obtain n s' where "iterations n env s1 = Some s'" "copy_step env s' = Exit x"
      by blast
    with Continue have "iterations (Suc n) env s = Some s' \<and> copy_step env s' = Exit x"
      by simp
    then show ?thesis by blast
  next
    case (Exit y)
    with unfolded have "iterations 0 env s = Some s \<and> copy_step env s = Exit x" by simp
    then show ?thesis by blast
  qed
qed

lemma copy_loop_iff:
  "copy_loop env s = Some x \<longleftrightarrow> (\<exists>n s'. iterations n env s = Some s' \<and> copy_step env s' = Exit x)"
  using copy_loop_iterations iterations_then_exit by blast

text \<open>What one more iteration that stays in the loop does.\<close>

lemma copy_step_Continue:
  assumes "copy_step env s = Continue s'"
  shows "polls s' = Suc (polls s)"
    and "\<exists>ws. events s' = events s @ ws \<and>
           (ws = [Delay 10] \<or> ws = [UpdateWrite (chunk env (polls s)) (chunk env (polls s))])
         \<and> acknowledged ws = (if 0 <s chunk env (polls s) then unat (chunk env (polls s)) else 0)
         \<and> totalWritten s' = totalWritten s + of_nat (acknowledged ws)"
  using assms
  by (auto simp: copy_step_chunk chunk_def word_sless_alt split: if_splits)

lemma iterations_add:
  "iterations (m + n) env s = (case iterations m env s of None \<Rightarrow> None | Some s' \<Rightarrow> iterations n env s')"
  by (induction m arbitrary: s) (auto split: iteration.splits)

lemma iterations_Suc_end:
  "iterations (Suc n) env s = Some s2 \<Longrightarrow>
     \<exists>s1. iterations n env s = Some s1 \<and> copy_step env s1 = Continue s2"
  using iterations_add [of n 1 env s]
  by (auto split: option.splits iteration.splits)

lemma iterations_inv:
  "iterations n env s = Some s' \<Longrightarrow>
     polls s' = polls s + n \<and>
     (\<exists>ws. events s' = events s @ ws \<and> loop_events ws \<and>
        produced env (polls s') = produced env (polls s) + acknowledged ws \<and>
        totalWritten s' = totalWritten s + of_nat (acknowledged ws))"
proof (induction n arbitrary: s')
  case 0
  then show ?case by (simp add: loop_events_def)
next
  case (Suc n)
  from iterations_Suc_end [OF Suc.prems] obtain s1
    where s1: "iterations n env s = Some s1" and step: "copy_step env s1 = Continue s'"
    by blast
  from Suc.IH [OF s1] obtain ws where ws: "polls s1 = polls s + n" "events s1 = events s @ ws"
    "loop_events ws" "produced env (polls s1) = produced env (polls s) + acknowledged ws"
    "totalWritten s1 = totalWritten s + of_nat (acknowledged ws)"
    by blast
  from copy_step_Continue [OF step] obtain w where w: "polls s' = Suc (polls s1)"
    "events s' = events s1 @ w"
    "w = [Delay 10] \<or> w = [UpdateWrite (chunk env (polls s1)) (chunk env (polls s1))]"
    "acknowledged w = (if 0 <s chunk env (polls s1) then unat (chunk env (polls s1)) else 0)"
    "totalWritten s' = totalWritten s1 + of_nat (acknowledged w)"
    by blast
  have "events s' = events s @ (ws @ w)" using ws w by simp
  moreover have "loop_events (ws @ w)" using ws(3) w(3) by (auto simp: loop_events_def)
  moreover have "produced env (polls s') = produced env (polls s) + acknowledged (ws @ w)"
    using ws(4) w(1,4) by (simp add: acknowledged_append)
  moreover have "totalWritten s' = totalWritten s + of_nat (acknowledged (ws @ w))"
    using ws(5) w(5) by (simp add: acknowledged_append)
  moreover have "polls s' = polls s + Suc n" using w(1) ws(1) by simp
  ultimately show ?case by blast
qed

lemma copy_step_closed:
  "available env (polls s) = 0 \<Longrightarrow> \<not> connected env (polls s) \<Longrightarrow> copy_step env s = Exit (LoopBreak s)"
  by (simp add: copy_step_def)

lemma copy_loop_returns:
  "available env n = 0 \<Longrightarrow> \<not> connected env n \<Longrightarrow> polls s \<le> n \<Longrightarrow> \<exists>x. copy_loop env s = Some x"
proof (induction "n - polls s" arbitrary: s)
  case 0
  then have "polls s = n" by simp
  with 0 have "copy_step env s = Exit (LoopBreak s)" by (simp add: copy_step_closed)
  then show ?case by (simp add: copy_loop_Exit)
next
  case (Suc d)
  show ?case
  proof (cases "copy_step env s")
    case (Continue s')
    then have "polls s' = Suc (polls s)" by (rule copy_step_Continue)
    with Suc have "\<exists>x. copy_loop env s' = Some x" by simp
    with Continue show ?thesis by (simp add: copy_loop_Continue)
  next
    case (Exit x)
    then show ?thesis by (simp add: copy_loop_Exit)
  qed
qed

lemma scripted_simps [simp]:
  "HTTP_CODE_OK (scripted sc len cap e f) = 200"
  "UPDATE_SIZE_UNKNOWN (scripted sc len cap e f) = 0xFFFFFFFF"
  "http_begin (scripted sc len cap e f) url = True"
  "http_GET (scripted sc len cap e f) = 200"
  "http_getSize (scripted sc len cap e f) = len"
  "available (scripted sc len cap e f) i = (if i < length sc then fst (sc ! i) else 0)"
  "connected (scripted sc len cap e f) i = (i < length sc \<and> fst (snd (sc ! i)))"
  "readBytes (scripted sc len cap e f) i n = (if i < length sc then snd (snd (sc ! i)) else 0)"
  "Update_begin (scripted sc len cap e f) hint u = (True, 0)"
  "Update_write (scripted sc len cap e f) n u = (if u + unat n \<le> cap then (n, u + unat n) else (0, u))"
  "Update_end (scripted sc len cap e f) u = (e, u)"
  "Update_isFinished (scripted sc len cap e f) u = f"
  "Update_abort (scripted sc len cap e f) u = 0"
  by (simp_all add: scripted_def)

lemmas run_simps = transfer_def begin_update_def copy_loop.simps copy_step_def finish_update_def
  sizeof_buffer_def word_sless_alt

subsection \<open>The stages of a run\<close>

lemma begin_update_session:
  "begin_update env u0 = (ok, s0) \<Longrightarrow>
     polls s0 = 0 \<and> totalWritten s0 = 0 \<and>
     events s0 = [SerialPrint (if 0 <s http_getSize env then MsgFirmwareSize (http_getSize env)
                               else MsgSizeUnknown),
                  UpdateBegin (if 0 <s http_getSize env then http_getSize env
                               else UPDATE_SIZE_UNKNOWN env) ok]"
  by (auto simp: begin_update_def Let_def split: prod.splits)

lemma transfer_Some:
  "transfer env u0 = Some r \<longleftrightarrow>
     (\<exists>ok s0. begin_update env u0 = (ok, s0) \<and>
        (if \<not> ok then r = (Return False, s0\<lparr>events := events s0 @ [SerialPrint MsgBeginFailed, HttpEnd]\<rparr>)
         else (\<exists>s. copy_loop env s0 = Some (LoopReturnFalse s) \<and> r = (Return False, s)) \<or>
              (\<exists>s. copy_loop env s0 = Some (LoopBreak s) \<and> r = finish_update env s)))"
proof (cases "begin_update env u0")
  case (Pair ok s0)
  show ?thesis
  proof (cases "copy_loop env s0")
    case None
    with Pair show ?thesis by (auto simp: transfer_def)
  next
    case (Some e)
    with Pair show ?thesis by (cases e) (auto simp: transfer_def)
  qed
qed

lemma transfer_begun:
  assumes "begin_update env u0 = (ok, s0)"
  shows "transfer env u0 =
     (if \<not> ok then
        Some (Return False, s0\<lparr>events := events s0 @ [SerialPrint MsgBeginFailed, HttpEnd]\<rparr>)
      else
        (case copy_loop env s0 of
           None \<Rightarrow> None
         | Some (LoopReturnFalse s) \<Rightarrow> Some (Return False, s)
         | Some (LoopBreak s) \<Rightarrow> Some (finish_update env s)))"
  using assms by (simp add: transfer_def)

lemma finish_update_cases:
  "finish_update env s =
     (if \<not> fst (Update_end env (partition s)) then
        (Return False, s\<lparr>partition := snd (Update_end env (partition s)),
           events := events s @ [UpdateEnd False, SerialPrint MsgEndFailed, HttpEnd]\<rparr>)
      else if \<not> Update_isFinished env (snd (Update_end env (partition s))) then
        (Return False, s\<lparr>partition := snd (Update_end env (partition s)),
           events := events s @
             [UpdateEnd True, UpdateIsFinished False, SerialPrint MsgNotFinished, HttpEnd]\<rparr>)
      else
        (Restarted, s\<lparr>partition := snd (Update_end env (partition s)),
           events := events s @
             [UpdateEnd True, UpdateIsFinished True, SerialPrint (MsgSuccess (totalWritten s)),
              HttpEnd, Delay 500, EspRestart]\<rparr>))"
  by (simp add: finish_update_def Let_def split: prod.splits)

lemma finish_update_exit: "finish_update env s = (x, s') \<Longrightarrow> x = Return False \<or> x = Restarted"
  by (auto simp: finish_update_cases split: if_splits)

lemma transfer_exit:
  assumes "transfer env u0 = Some (x, s)"
  shows "x = Return False \<or> x = Restarted"
proof -
  from assms obtain ok s0 where b: "begin_update env u0 = (ok, s0)"
    and c: "if \<not> ok then (x, s) = (Return False, s0\<lparr>events := events s0 @ [SerialPrint MsgBeginFailed, HttpEnd]\<rparr>)
         else (\<exists>t. copy_loop env s0 = Some (LoopReturnFalse t) \<and> (x, s) = (Return False, t)) \<or>
              (\<exists>t. copy_loop env s0 = Some (LoopBreak t) \<and> (x, s) = finish_update env t)"
    unfolding transfer_Some by blast
  show ?thesis
  proof (cases ok)
    case False
    with c show ?thesis by simp
  next
    case True
    with c show ?thesis using finish_update_exit [of env _ x s] by auto
  qed
qed


lemma quiet_events:
  "ev = (if c then [SetInsecure] else []) @
        [SetConnectTimeout 10000, SerialPrint (MsgChecking url), HttpBegin url True,
         AddHeader ''X-Device-Id'' device_id, AddHeader ''X-Current-Version'' version,
         HttpGET code] \<Longrightarrow>
   writes ev = [] \<and> aborts ev = 0 \<and> acknowledged ev = 0 \<and> EspRestart \<notin> set ev"
  by (simp add: aborts_def)

lemma performHttpUpdate_transfer:
  assumes "startsWith url ''http://'' \<or> startsWith url ''https://''"
    and "http_begin env url" and "http_GET env = HTTP_CODE_OK env"
  shows "performHttpUpdate env url u0 =
     map_option (preceded ((if startsWith url ''https://'' then [SetInsecure] else []) @
        [SetConnectTimeout 10000, SerialPrint (MsgChecking url), HttpBegin url True,
         AddHeader ''X-Device-Id'' device_id, AddHeader ''X-Current-Version'' version,
         HttpGET (http_GET env)])) (transfer env u0)"
  using assms by (auto simp: performHttpUpdate_def Let_def)

lemma performHttpUpdate_Some:
  assumes "performHttpUpdate env url u0 = Some (x, s)"
  shows "(x = Return False \<and> writes (events s) = [] \<and> aborts (events s) = 0 \<and>
            EspRestart \<notin> set (events s)) \<or>
         (\<exists>ev t. transfer env u0 = Some (x, t) \<and> s = t\<lparr>events := ev @ events t\<rparr> \<and>
            writes ev = [] \<and> aborts ev = 0 \<and> acknowledged ev = 0 \<and> EspRestart \<notin> set ev)"
proof (cases "\<not> startsWith url ''http://'' \<and> \<not> startsWith url ''https://''")
  case True
  with assms show ?thesis
    by (auto simp: performHttpUpdate_def returned_early_def aborts_def)
next
  case scheme: False
  show ?thesis
  proof (cases "http_begin env url")
    case False
    with scheme assms show ?thesis
      by (auto simp: performHttpUpdate_def returned_early_def aborts_def Let_def)
  next
    case began: True
    show ?thesis
    proof (cases "http_GET env = HTTP_CODE_OK env")
      case False
      with scheme began assms show ?thesis
        by (auto simp: performHttpUpdate_def returned_early_def aborts_def Let_def)
    next
      case True
      define ev where "ev = (if startsWith url ''https://'' then [SetInsecure] else []) @
        [SetConnectTimeout 10000, SerialPrint (MsgChecking url), HttpBegin url True,
         AddHeader ''X-Device-Id'' device_id, AddHeader ''X-Current-Version'' version,
         HttpGET (http_GET env)]"
      from scheme have "startsWith url ''http://'' \<or> startsWith url ''https://''" by simp
      from performHttpUpdate_transfer [OF this began True, of u0] assms
      have "map_option (preceded ev) (transfer env u0) = Some (x, s)"
        by (simp add: ev_def)
      then obtain r where r: "transfer env u0 = Some r" "preceded ev r = (x, s)"
        by auto
      then have "transfer env u0 = Some (x, snd r) \<and> s = (snd r)\<lparr>events := ev @ events (snd r)\<rparr>"
        by (cases r) auto
      with quiet_events [OF ev_def] show ?thesis by blast
    qed
  qed
qed

lemma performHttpUpdate_returns:
  assumes "transfer env u0 = Some r"
  shows "\<exists>y t. performHttpUpdate env url u0 = Some (y, t)"
proof -
  have "\<exists>q. performHttpUpdate env url u0 = Some q"
    using assms by (simp add: performHttpUpdate_def Let_def)
  then show ?thesis by auto
qed

lemma transfer_returns:
  assumes "available env n = 0" and "\<not> connected env n"
  shows "\<exists>r. transfer env u0 = Some r"
proof (cases "begin_update env u0")
  case (Pair ok s0)
  show ?thesis
  proof (cases ok)
    case False
    with Pair show ?thesis by (simp add: transfer_def)
  next
    case True
    have "polls s0 \<le> n" using begin_update_session [OF Pair] by simp
    from copy_loop_returns [OF assms this] obtain e where "copy_loop env s0 = Some e" by blast
    with Pair True show ?thesis by (cases e) (simp_all add: transfer_def)
  qed
qed

lemma performHttpUpdate_exit:
  assumes "performHttpUpdate env url u0 = Some (x, s)"
  shows "x = Return False \<or> x = Restarted"
  using performHttpUpdate_Some [OF assms] by (auto dest: transfer_exit)

subsection \<open>The ways out of the loop\<close>

lemma copy_step_ReturnFalse:
  assumes "copy_step env s = Exit (LoopReturnFalse s')"
  shows "available env (polls s) \<noteq> 0" and "0 <s chunk env (polls s)"
    and "fst (Update_write env (chunk env (polls s)) (partition s)) \<noteq> chunk env (polls s)"
    and "s' = s\<lparr>partition :=
            Update_abort env (snd (Update_write env (chunk env (polls s)) (partition s))),
          events := events s @
            [UpdateWrite (chunk env (polls s))
               (fst (Update_write env (chunk env (polls s)) (partition s))),
             SerialPrint MsgWriteError, UpdateAbort, HttpEnd]\<rparr>"
  using assms by (auto simp: copy_step_chunk word_sless_alt split: if_splits)

lemma copy_step_Break:
  assumes "copy_step env s = Exit (LoopBreak s')"
  shows "s' = s" and "\<not> 0 <s chunk env (polls s)"
  using assms by (auto simp: copy_step_chunk chunk_def word_sless_alt split: if_splits)

lemma loop_events_quiet:
  assumes "loop_events ws"
  shows "aborts ws = 0" and "EspRestart \<notin> set ws" and "SerialPrint m \<notin> set ws"
    and "UpdateEnd b \<notin> set ws" and "UpdateIsFinished b \<notin> set ws"
    and "\<And>n a. (n, a) \<in> set (writes ws) \<Longrightarrow> a = n"
proof -
  show "aborts ws = 0" using assms unfolding aborts_def loop_events_def
    by (induction ws) auto
  show "EspRestart \<notin> set ws" "SerialPrint m \<notin> set ws" "UpdateEnd b \<notin> set ws"
    "UpdateIsFinished b \<notin> set ws"
    using assms by (auto simp: loop_events_def)
  show "\<And>n a. (n, a) \<in> set (writes ws) \<Longrightarrow> a = n"
    using assms unfolding loop_events_def
    by (induction ws rule: writes.induct) auto
qed

lemma begin_events_quiet:
  assumes "begin_update env u0 = (ok, s0)"
  shows "writes (events s0) = []" and "aborts (events s0) = 0" and "acknowledged (events s0) = 0"
    and "EspRestart \<notin> set (events s0)" and "UpdateEnd b \<notin> set (events s0)"
    and "UpdateIsFinished b \<notin> set (events s0)"
  using begin_update_session [OF assms] by (simp_all add: aborts_def)

text \<open>
  The events of a run of the transfer: those of the beginning, those of the loop, and
  those of one of the five ways in which the run ends.
\<close>

lemma transfer_events:
  assumes "transfer env u0 = Some (x, s)"
  shows "\<exists>ok s0 ws tail. begin_update env u0 = (ok, s0) \<and> events s = events s0 @ ws @ tail \<and>
     loop_events ws \<and> totalWritten s = of_nat (acknowledged ws) \<and>
     acknowledged ws = produced env (polls s) \<and>
     (x = Return False \<and> \<not> ok \<and> ws = [] \<and> tail = [SerialPrint MsgBeginFailed, HttpEnd] \<or>
      x = Return False \<and> ok \<and>
        (\<exists>n a. a \<noteq> n \<and> tail = [UpdateWrite n a, SerialPrint MsgWriteError, UpdateAbort, HttpEnd]) \<or>
      x = Return False \<and> ok \<and> tail = [UpdateEnd False, SerialPrint MsgEndFailed, HttpEnd] \<or>
      x = Return False \<and> ok \<and>
        tail = [UpdateEnd True, UpdateIsFinished False, SerialPrint MsgNotFinished, HttpEnd] \<or>
      x = Restarted \<and> ok \<and>
        tail = [UpdateEnd True, UpdateIsFinished True, SerialPrint (MsgSuccess (totalWritten s)),
                HttpEnd, Delay 500, EspRestart])"
proof -
  from assms obtain ok s0 where b: "begin_update env u0 = (ok, s0)"
    and c: "if \<not> ok then (x, s) = (Return False, s0\<lparr>events := events s0 @ [SerialPrint MsgBeginFailed, HttpEnd]\<rparr>)
         else (\<exists>t. copy_loop env s0 = Some (LoopReturnFalse t) \<and> (x, s) = (Return False, t)) \<or>
              (\<exists>t. copy_loop env s0 = Some (LoopBreak t) \<and> (x, s) = finish_update env t)"
    unfolding transfer_Some by blast
  note s0 = begin_update_session [OF b]
  show ?thesis
  proof (cases ok)
    case False
    with c have "x = Return False" "s = s0\<lparr>events := events s0 @ [SerialPrint MsgBeginFailed, HttpEnd]\<rparr>"
      by simp_all
    with False s0 have "events s = events s0 @ [] @ [SerialPrint MsgBeginFailed, HttpEnd] \<and>
      loop_events [] \<and> totalWritten s = of_nat (acknowledged []) \<and>
      acknowledged [] = produced env (polls s) \<and> x = Return False \<and> \<not> ok"
      by (simp add: loop_events_def)
    with b show ?thesis by blast
  next
    case True
    with c obtain e where e: "copy_loop env s0 = Some e"
      and r: "(e = LoopReturnFalse s \<and> x = Return False) \<or> (\<exists>t. e = LoopBreak t \<and> (x, s) = finish_update env t)"
      by auto
    from copy_loop_iterations [OF e] obtain n s1
      where it: "iterations n env s0 = Some s1" and ex: "copy_step env s1 = Exit e"
      by blast
    from iterations_inv [OF it] s0 obtain ws where ws: "events s1 = events s0 @ ws" "loop_events ws"
      "produced env (polls s1) = acknowledged ws" "totalWritten s1 = of_nat (acknowledged ws)"
      by auto
    from r show ?thesis
    proof
      assume w: "e = LoopReturnFalse s \<and> x = Return False"
      with ex have st: "copy_step env s1 = Exit (LoopReturnFalse s)" by simp
      define n where "n = chunk env (polls s1)"
      define a where "a = fst (Update_write env (chunk env (polls s1)) (partition s1))"
      from copy_step_ReturnFalse(3,4) [OF st]
      have "a \<noteq> n" and "events s = events s1 @ [UpdateWrite n a, SerialPrint MsgWriteError, UpdateAbort, HttpEnd]"
        and "totalWritten s = totalWritten s1" and "polls s = polls s1"
        by (simp_all add: n_def a_def)
      with ws w True have "events s = events s0 @ ws @ [UpdateWrite n a, SerialPrint MsgWriteError, UpdateAbort, HttpEnd] \<and>
        loop_events ws \<and> totalWritten s = of_nat (acknowledged ws) \<and>
        acknowledged ws = produced env (polls s) \<and> x = Return False \<and> ok \<and> a \<noteq> n"
        by simp
      with b show ?thesis by blast
    next
      assume "\<exists>t. e = LoopBreak t \<and> (x, s) = finish_update env t"
      then obtain t where t: "e = LoopBreak t" "(x, s) = finish_update env t" by blast
      with ex have "t = s1" using copy_step_Break(1) by blast
      with t have f: "finish_update env s1 = (x, s)" by simp
      then have "polls s = polls s1" "totalWritten s = totalWritten s1"
        by (auto simp: finish_update_cases split: if_splits)
      with ws have inv: "loop_events ws \<and> totalWritten s = of_nat (acknowledged ws) \<and>
        acknowledged ws = produced env (polls s)" by simp
      from f ws(1) \<open>totalWritten s = totalWritten s1\<close> have "\<exists>tail. events s = events s0 @ ws @ tail \<and>
        (x = Return False \<and> tail = [UpdateEnd False, SerialPrint MsgEndFailed, HttpEnd] \<or>
         x = Return False \<and> tail = [UpdateEnd True, UpdateIsFinished False, SerialPrint MsgNotFinished, HttpEnd] \<or>
         x = Restarted \<and> tail = [UpdateEnd True, UpdateIsFinished True, SerialPrint (MsgSuccess (totalWritten s)),
                HttpEnd, Delay 500, EspRestart])"
        by (auto simp: finish_update_cases split: if_splits)
      with inv True b show ?thesis by blast
    qed
  qed
qed

lemma transfer_restarted:
  assumes "transfer env u0 = Some (Restarted, s)"
  shows "\<exists>s0 ws. begin_update env u0 = (True, s0) \<and>
     events s = events s0 @ ws @
       [UpdateEnd True, UpdateIsFinished True, SerialPrint (MsgSuccess (totalWritten s)),
        HttpEnd, Delay 500, EspRestart] \<and>
     loop_events ws \<and> totalWritten s = of_nat (acknowledged ws) \<and>
     acknowledged ws = produced env (polls s)"
proof -
  from transfer_events [OF assms] obtain ok s0 ws tail
    where b: "begin_update env u0 = (ok, s0)" and ev: "events s = events s0 @ ws @ tail"
      and ws: "loop_events ws" "totalWritten s = of_nat (acknowledged ws)"
        "acknowledged ws = produced env (polls s)"
      and tail: "Restarted = Return False \<and> \<not> ok \<and> ws = [] \<and> tail = [SerialPrint MsgBeginFailed, HttpEnd] \<or>
      Restarted = Return False \<and> ok \<and>
        (\<exists>n a. a \<noteq> n \<and> tail = [UpdateWrite n a, SerialPrint MsgWriteError, UpdateAbort, HttpEnd]) \<or>
      Restarted = Return False \<and> ok \<and> tail = [UpdateEnd False, SerialPrint MsgEndFailed, HttpEnd] \<or>
      Restarted = Return False \<and> ok \<and>
        tail = [UpdateEnd True, UpdateIsFinished False, SerialPrint MsgNotFinished, HttpEnd] \<or>
      Restarted = Restarted \<and> ok \<and>
        tail = [UpdateEnd True, UpdateIsFinished True, SerialPrint (MsgSuccess (totalWritten s)),
                HttpEnd, Delay 500, EspRestart]"
    by blast
  from tail have "ok" and "tail = [UpdateEnd True, UpdateIsFinished True,
      SerialPrint (MsgSuccess (totalWritten s)), HttpEnd, Delay 500, EspRestart]"
    by simp_all
  with b ev ws show ?thesis by auto
qed

lemma transfer_finalize:
  assumes "begin_update env u0 = (True, s0)" and "copy_loop env s0 = Some (LoopBreak s1)"
  shows "transfer env u0 = Some (finish_update env s1)"
  using assms by (simp add: transfer_def)

lemma restarted_iff_checks:
  assumes "transfer env u0 = Some (x, s)"
  shows "x = Restarted \<longleftrightarrow> UpdateEnd True \<in> set (events s) \<and> UpdateIsFinished True \<in> set (events s)"
proof -
  from transfer_events [OF assms] obtain ok s0 ws tail
    where b: "begin_update env u0 = (ok, s0)" and ev: "events s = events s0 @ ws @ tail"
      and ws: "loop_events ws"
      and tail: "x = Return False \<and> \<not> ok \<and> ws = [] \<and> tail = [SerialPrint MsgBeginFailed, HttpEnd] \<or>
      x = Return False \<and> ok \<and>
        (\<exists>n a. a \<noteq> n \<and> tail = [UpdateWrite n a, SerialPrint MsgWriteError, UpdateAbort, HttpEnd]) \<or>
      x = Return False \<and> ok \<and> tail = [UpdateEnd False, SerialPrint MsgEndFailed, HttpEnd] \<or>
      x = Return False \<and> ok \<and>
        tail = [UpdateEnd True, UpdateIsFinished False, SerialPrint MsgNotFinished, HttpEnd] \<or>
      x = Restarted \<and> ok \<and>
        tail = [UpdateEnd True, UpdateIsFinished True, SerialPrint (MsgSuccess (totalWritten s)),
                HttpEnd, Delay 500, EspRestart]"
    by blast
  note q = begin_events_quiet [OF b] loop_events_quiet [OF ws]
  have "UpdateEnd True \<in> set (events s) \<and> UpdateIsFinished True \<in> set (events s) \<longleftrightarrow>
        UpdateEnd True \<in> set tail \<and> UpdateIsFinished True \<in> set tail"
    using ev q(5) q(6) q(10) q(11) by auto
  with tail show ?thesis by auto
qed

lemma transfer_restart_event:
  assumes "transfer env u0 = Some (x, s)"
  shows "x = Restarted \<longleftrightarrow> EspRestart \<in> set (events s)"
proof -
  from transfer_events [OF assms] obtain ok s0 ws tail
    where b: "begin_update env u0 = (ok, s0)" and ev: "events s = events s0 @ ws @ tail"
      and ws: "loop_events ws"
      and tail: "x = Return False \<and> \<not> ok \<and> ws = [] \<and> tail = [SerialPrint MsgBeginFailed, HttpEnd] \<or>
      x = Return False \<and> ok \<and>
        (\<exists>n a. a \<noteq> n \<and> tail = [UpdateWrite n a, SerialPrint MsgWriteError, UpdateAbort, HttpEnd]) \<or>
      x = Return False \<and> ok \<and> tail = [UpdateEnd False, SerialPrint MsgEndFailed, HttpEnd] \<or>
      x = Return False \<and> ok \<and>
        tail = [UpdateEnd True, UpdateIsFinished False, SerialPrint MsgNotFinished, HttpEnd] \<or>
      x = Restarted \<and> ok \<and>
        tail = [UpdateEnd True, UpdateIsFinished True, SerialPrint (MsgSuccess (totalWritten s)),
                HttpEnd, Delay 500, EspRestart]"
    by blast
  have "EspRestart \<in> set (events s) \<longleftrightarrow> EspRestart \<in> set tail"
    using ev begin_events_quiet(4) [OF b] loop_events_quiet(2) [OF ws] by simp
  with tail show ?thesis by auto
qed

subsection \<open>Counting the bytes\<close>

lemma unat_total:
  "k < 2 ^ 32 \<Longrightarrow> unat (of_nat k :: 32 word) = k"
  by (simp add: unat_of_nat)

lemma iterations_accounting:
  assumes "begin_update env u0 = (ok, s0)" and "iterations n env s0 = Some s"
  shows "totalWritten s = of_nat (acknowledged (events s))"
    and "acknowledged (events s) = produced env n" and "polls s = n"
proof -
  note s0 = begin_update_session [OF assms(1)]
  note q = begin_events_quiet [OF assms(1)]
  from iterations_inv [OF assms(2)] obtain ws where ws: "polls s = polls s0 + n"
    "events s = events s0 @ ws"
    "produced env (polls s) = produced env (polls s0) + acknowledged ws"
    "totalWritten s = totalWritten s0 + of_nat (acknowledged ws)"
    by blast
  from ws(1) s0 show p: "polls s = n" by simp
  from ws(2) q(3) have a: "acknowledged (events s) = acknowledged ws"
    by (simp add: acknowledged_append)
  with ws(4) s0 show "totalWritten s = of_nat (acknowledged (events s))" by simp
  from ws(3) s0 p a show "acknowledged (events s) = produced env n" by simp
qed

lemma iterations_monotone:
  assumes "iterations m env s0 = Some s" and "iterations (m + d) env s0 = Some s'"
  shows "acknowledged (events s) \<le> acknowledged (events s')"
proof -
  from assms have "iterations d env s = Some s'" by (simp add: iterations_add)
  from iterations_inv [OF this] obtain ws where "events s' = events s @ ws" by blast
  then show ?thesis by (simp add: acknowledged_append)
qed

lemma transfer_accounting:
  assumes "transfer env u0 = Some (x, s)"
  shows "totalWritten s = of_nat (acknowledged (events s))"
proof -
  from transfer_events [OF assms] obtain ok s0 ws tail
    where b: "begin_update env u0 = (ok, s0)" and ev: "events s = events s0 @ ws @ tail"
      and ws: "totalWritten s = of_nat (acknowledged ws)"
      and tail: "x = Return False \<and> \<not> ok \<and> ws = [] \<and> tail = [SerialPrint MsgBeginFailed, HttpEnd] \<or>
      x = Return False \<and> ok \<and>
        (\<exists>n a. a \<noteq> n \<and> tail = [UpdateWrite n a, SerialPrint MsgWriteError, UpdateAbort, HttpEnd]) \<or>
      x = Return False \<and> ok \<and> tail = [UpdateEnd False, SerialPrint MsgEndFailed, HttpEnd] \<or>
      x = Return False \<and> ok \<and>
        tail = [UpdateEnd True, UpdateIsFinished False, SerialPrint MsgNotFinished, HttpEnd] \<or>
      x = Restarted \<and> ok \<and>
        tail = [UpdateEnd True, UpdateIsFinished True, SerialPrint (MsgSuccess (totalWritten s)),
                HttpEnd, Delay 500, EspRestart]"
    by blast
  from tail have "acknowledged tail = 0" by auto
  with ev begin_events_quiet(3) [OF b] have "acknowledged (events s) = acknowledged ws"
    by (simp add: acknowledged_append)
  with ws show ?thesis by simp
qed

lemma restarted_accounting:
  assumes "transfer env u0 = Some (Restarted, s)"
  shows "SerialPrint (MsgSuccess (totalWritten s)) \<in> set (events s)"
    and "acknowledged (events s) = produced env (polls s)"
proof -
  from transfer_restarted [OF assms] obtain s0 ws where b: "begin_update env u0 = (True, s0)"
    and ev: "events s = events s0 @ ws @
       [UpdateEnd True, UpdateIsFinished True, SerialPrint (MsgSuccess (totalWritten s)),
        HttpEnd, Delay 500, EspRestart]"
    and ws: "acknowledged ws = produced env (polls s)"
    by blast
  from ev show "SerialPrint (MsgSuccess (totalWritten s)) \<in> set (events s)" by simp
  from ev ws begin_events_quiet(3) [OF b] show "acknowledged (events s) = produced env (polls s)"
    by (simp add: acknowledged_append)
qed

subsection \<open>A short write\<close>

lemma short_write_run:
  assumes "begin_update env u0 = (True, s0)" and "iterations k env s0 = Some s1"
    and "available env (polls s1) \<noteq> 0" and "0 <s chunk env (polls s1)"
    and "Update_write env (chunk env (polls s1)) (partition s1) = (a, u')"
    and "a \<noteq> chunk env (polls s1)"
  shows "transfer env u0 =
       Some (Return False, s1\<lparr>partition := Update_abort env u',
         events := events s1 @
           [UpdateWrite (chunk env (polls s1)) a, SerialPrint MsgWriteError, UpdateAbort,
            HttpEnd]\<rparr>)"
    and "aborts (events s1) = 0"
    and "\<forall>(n, b) \<in> set (writes (events s1)). b = n"
proof -
  from assms(3-6) have "copy_step env s1 =
      Exit (LoopReturnFalse (s1\<lparr>partition := Update_abort env u',
         events := events s1 @
           [UpdateWrite (chunk env (polls s1)) a, SerialPrint MsgWriteError, UpdateAbort,
            HttpEnd]\<rparr>))"
    by (simp add: copy_step_chunk word_sless_alt)
  from iterations_then_exit [OF assms(2) this] assms(1)
  show "transfer env u0 =
       Some (Return False, s1\<lparr>partition := Update_abort env u',
         events := events s1 @
           [UpdateWrite (chunk env (polls s1)) a, SerialPrint MsgWriteError, UpdateAbort,
            HttpEnd]\<rparr>)"
    by (simp add: transfer_def)
  from iterations_inv [OF assms(2)] obtain ws where ws: "events s1 = events s0 @ ws" "loop_events ws"
    by blast
  note q = begin_events_quiet [OF assms(1)] loop_events_quiet [OF ws(2)]
  show "aborts (events s1) = 0" using ws(1) q(2) q(7) by (simp add: aborts_append)
  show "\<forall>(n, b) \<in> set (writes (events s1)). b = n"
    using ws(1) q(1) q(12) by (auto simp: writes_append)
qed

lemma short_write_last:
  assumes "transfer env u0 = Some (x, s)" and "(n, a) \<in> set (writes (events s))" and "a \<noteq> n"
  shows "x = Return False \<and> aborts (events s) = 1 \<and>
     (\<exists>pre. events s = pre @ [UpdateWrite n a, SerialPrint MsgWriteError, UpdateAbort, HttpEnd] \<and>
        (\<forall>(k, b) \<in> set (writes pre). b = k))"
proof -
  from transfer_events [OF assms(1)] obtain ok s0 ws tail
    where b: "begin_update env u0 = (ok, s0)" and ev: "events s = events s0 @ ws @ tail"
      and ws: "loop_events ws"
      and tail: "x = Return False \<and> \<not> ok \<and> ws = [] \<and> tail = [SerialPrint MsgBeginFailed, HttpEnd] \<or>
      x = Return False \<and> ok \<and>
        (\<exists>n a. a \<noteq> n \<and> tail = [UpdateWrite n a, SerialPrint MsgWriteError, UpdateAbort, HttpEnd]) \<or>
      x = Return False \<and> ok \<and> tail = [UpdateEnd False, SerialPrint MsgEndFailed, HttpEnd] \<or>
      x = Return False \<and> ok \<and>
        tail = [UpdateEnd True, UpdateIsFinished False, SerialPrint MsgNotFinished, HttpEnd] \<or>
      x = Restarted \<and> ok \<and>
        tail = [UpdateEnd True, UpdateIsFinished True, SerialPrint (MsgSuccess (totalWritten s)),
                HttpEnd, Delay 500, EspRestart]"
    by blast
  note q = begin_events_quiet [OF b] loop_events_quiet [OF ws]
  have full: "\<forall>(k, b) \<in> set (writes (events s0 @ ws)). b = k"
    using q(1) q(12) by (auto simp: writes_append)
  from assms(2) ev have "(n, a) \<in> set (writes (events s0 @ ws)) \<or> (n, a) \<in> set (writes tail)"
    by (auto simp: writes_append)
  with full assms(3) have in_tail: "(n, a) \<in> set (writes tail)" by auto
  with tail have t: "x = Return False"
    "tail = [UpdateWrite n a, SerialPrint MsgWriteError, UpdateAbort, HttpEnd]"
    by auto
  have "aborts (events s) = 1"
    using ev t(2) q(2) q(7) by (simp add: aborts_append) (simp add: aborts_def)
  moreover have "events s = (events s0 @ ws) @ [UpdateWrite n a, SerialPrint MsgWriteError, UpdateAbort, HttpEnd]"
    using ev t(2) by simp
  ultimately show ?thesis using t(1) full by blast
qed

subsection \<open>What a run depends on\<close>

lemma iterations_cong:
  assumes "\<And>s. copy_step e1 s = copy_step e2 s"
  shows "iterations n e1 s = iterations n e2 s"
  by (induction n arbitrary: s) (simp_all add: assms split: iteration.splits)

lemma copy_loop_cong:
  assumes "\<And>s. copy_step e1 s = copy_step e2 s"
  shows "copy_loop e1 s = copy_loop e2 s"
proof -
  have "copy_loop e1 s = Some x \<longleftrightarrow> copy_loop e2 s = Some x" for x
    unfolding copy_loop_iff iterations_cong [OF assms] assms ..
  then show ?thesis
    by (metis option.exhaust)
qed

lemma transfer_cong:
  assumes "\<And>s. copy_step e1 s = copy_step e2 s"
    and "begin_update e1 u0 = begin_update e2 u0"
    and "\<And>s. finish_update e1 s = finish_update e2 s"
  shows "transfer e1 u0 = transfer e2 u0"
proof -
  have loop: "copy_loop e1 = copy_loop e2"
    by (intro ext) (rule copy_loop_cong [OF assms(1)])
  have fin: "finish_update e1 = finish_update e2"
    by (intro ext) (rule assms(3))
  show ?thesis
    unfolding transfer_def assms(2) loop fin by (rule refl)
qed

lemma performHttpUpdate_cong:
  assumes "transfer e1 u0 = transfer e2 u0"
    and "http_begin e1 url = http_begin e2 url" and "http_GET e1 = http_GET e2"
    and "HTTP_CODE_OK e1 = HTTP_CODE_OK e2"
  shows "performHttpUpdate e1 url u0 = performHttpUpdate e2 url u0"
  unfolding performHttpUpdate_def assms by (rule refl)



lemma copy_step_getSize [simp]: "copy_step (env\<lparr>http_getSize := l\<rparr>) s = copy_step env s"
  by (simp add: copy_step_def Let_def cong: if_cong)

lemma finish_update_getSize [simp]: "finish_update (env\<lparr>http_getSize := l\<rparr>) s = finish_update env s"
  by (simp add: finish_update_def Let_def cong: if_cong)

lemma begin_update_unknown:
  assumes "sint (http_getSize env) \<le> 0"
  shows "begin_update env u0 =
     (fst (Update_begin env (UPDATE_SIZE_UNKNOWN env) u0),
      \<lparr>polls = 0, partition = snd (Update_begin env (UPDATE_SIZE_UNKNOWN env) u0), totalWritten = 0,
       events = [SerialPrint MsgSizeUnknown,
                 UpdateBegin (UPDATE_SIZE_UNKNOWN env)
                   (fst (Update_begin env (UPDATE_SIZE_UNKNOWN env) u0))]\<rparr>)"
  using assms by (simp add: begin_update_def Let_def word_sless_alt split: prod.splits)

subsection \<open>The restart\<close>

lemma performHttpUpdate_restart:
  assumes "performHttpUpdate env url u0 = Some (x, s)"
  shows "x \<noteq> Return True"
    and "x = Restarted \<longleftrightarrow> EspRestart \<in> set (events s)"
    and "x = Restarted \<Longrightarrow> \<exists>pre. events s = pre @
           [SerialPrint (MsgSuccess (totalWritten s)), HttpEnd, Delay 500, EspRestart]"
proof -
  from performHttpUpdate_exit [OF assms] show "x \<noteq> Return True" by auto
  from performHttpUpdate_Some [OF assms]
  consider (early) "x = Return False" "EspRestart \<notin> set (events s)"
    | (run) ev t where "transfer env u0 = Some (x, t)" "s = t\<lparr>events := ev @ events t\<rparr>"
        "EspRestart \<notin> set ev"
    by blast
  then show "x = Restarted \<longleftrightarrow> EspRestart \<in> set (events s)"
  proof cases
    case early
    then show ?thesis by simp
  next
    case run
    with transfer_restart_event [OF run(1)] show ?thesis by simp
  qed
  show "\<exists>pre. events s = pre @
           [SerialPrint (MsgSuccess (totalWritten s)), HttpEnd, Delay 500, EspRestart]"
    if r: "x = Restarted"
  proof -
    from performHttpUpdate_Some [OF assms] r obtain ev t
      where t: "transfer env u0 = Some (Restarted, t)" "s = t\<lparr>events := ev @ events t\<rparr>"
      by auto
    from transfer_restarted [OF t(1)] obtain s0 ws where "begin_update env u0 = (True, s0)"
      and "events t = events s0 @ ws @
       [UpdateEnd True, UpdateIsFinished True, SerialPrint (MsgSuccess (totalWritten t)),
        HttpEnd, Delay 500, EspRestart]"
      by blast
    with t(2) have "events s = (ev @ events s0 @ ws @ [UpdateEnd True, UpdateIsFinished True]) @
       [SerialPrint (MsgSuccess (totalWritten s)), HttpEnd, Delay 500, EspRestart]"
      by simp
    then show ?thesis by blast
  qed
qed

lemma checkForUpdate_cases:
  assumes "checkForUpdate cfg env u0 = Some (x, s)"
  shows "(x = Return False \<and> events s = [SerialPrint MsgNotConfigured]) \<or>
         (\<exists>url. performHttpUpdate env url u0 = Some (x, s))"
  using assms by (auto simp: checkForUpdate_def Let_def returned_early_def split: if_splits)

subsection \<open>A stream without bytes\<close>



subsection \<open>The sample runs\<close>

lemmas sample_defs = two_chunks_def good_run_def full_flash_def cut_off_def unfinished_def
  read_fails_def silent_then_closed_def closed_at_once_def

lemma iterations_numeral:
  "iterations (numeral k) env s =
     (case copy_step env s of
        Continue s' \<Rightarrow> iterations (pred_numeral k) env s'
      | Exit x \<Rightarrow> None)"
  by (simp add: numeral_eq_Suc)

lemma produced_numeral:
  "produced env (numeral k) =
     produced env (pred_numeral k) +
     (if 0 <s chunk env (pred_numeral k) then unat (chunk env (pred_numeral k)) else 0)"
  by (simp add: numeral_eq_Suc)

lemmas eval_simps = sample_defs run_simps chunk_def aborts_def
  iterations_numeral produced_numeral

lemma good_run_http:
  "http_begin good_run url" "http_GET good_run = 200" "HTTP_CODE_OK good_run = 200"
  by (simp_all add: good_run_def)

lemma good_run_begin:
  "begin_update good_run 0 =
     (True, \<lparr>polls = 0, partition = 0, totalWritten = 0,
        events = [SerialPrint (MsgFirmwareSize 4096), UpdateBegin 4096 True]\<rparr>)"
  by (simp add: eval_simps)

lemma good_run_iterations:
  "iterations 3 good_run \<lparr>polls = 0, partition = 0, totalWritten = 0,
        events = [SerialPrint (MsgFirmwareSize 4096), UpdateBegin 4096 True]\<rparr> =
     Some \<lparr>polls = 3, partition = 4096, totalWritten = 4096,
        events = [SerialPrint (MsgFirmwareSize 4096), UpdateBegin 4096 True,
                  UpdateWrite 2048 2048, Delay 10, UpdateWrite 2048 2048]\<rparr>"
  by (simp add: eval_simps)

lemma good_run_loop:
  "copy_loop good_run \<lparr>polls = 0, partition = 0, totalWritten = 0,
        events = [SerialPrint (MsgFirmwareSize 4096), UpdateBegin 4096 True]\<rparr> =
     Some (LoopBreak \<lparr>polls = 3, partition = 4096, totalWritten = 4096,
        events = [SerialPrint (MsgFirmwareSize 4096), UpdateBegin 4096 True,
                  UpdateWrite 2048 2048, Delay 10, UpdateWrite 2048 2048]\<rparr>)"
  by (simp add: eval_simps)

lemma good_run_transfer:
  "transfer good_run 0 =
     Some (Restarted, \<lparr>polls = 3, partition = 4096, totalWritten = 4096,
        events = [SerialPrint (MsgFirmwareSize 4096), UpdateBegin 4096 True,
                  UpdateWrite 2048 2048, Delay 10, UpdateWrite 2048 2048,
                  UpdateEnd True, UpdateIsFinished True, SerialPrint (MsgSuccess 4096),
                  HttpEnd, Delay 500, EspRestart]\<rparr>)"
  by (simp add: eval_simps)

lemma checkForUpdate_sample:
  "checkForUpdate sample_config env u0 = performHttpUpdate env sample_url u0"
  by (simp add: checkForUpdate_def firmwareEndpointUrl_def repoApiBaseUrl_def endsWith_def
        sample_config_def sample_url_def device_type_def version_def device_id_def)

lemma sample_url_scheme: "startsWith sample_url ''http://''"
  by (simp add: startsWith_def sample_url_def)

lemma good_run_sample_url:
  "performHttpUpdate good_run sample_url 0 =
     Some (Restarted, \<lparr>polls = 3, partition = 4096, totalWritten = 4096,
        events = [SetConnectTimeout 10000, SerialPrint (MsgChecking sample_url),
                  HttpBegin sample_url True,
                  AddHeader ''X-Device-Id'' ''1234567890'',
                  AddHeader ''X-Current-Version'' ''0.1.7'', HttpGET 200,
                  SerialPrint (MsgFirmwareSize 4096), UpdateBegin 4096 True,
                  UpdateWrite 2048 2048, Delay 10, UpdateWrite 2048 2048,
                  UpdateEnd True, UpdateIsFinished True, SerialPrint (MsgSuccess 4096),
                  HttpEnd, Delay 500, EspRestart]\<rparr>)"
proof -
  have "\<not> startsWith sample_url ''https://''"
    by (simp add: startsWith_def sample_url_def)
  then show ?thesis
    using performHttpUpdate_transfer [of sample_url good_run 0]
    by (simp add: sample_url_scheme good_run_http good_run_transfer device_id_def version_def)
qed

lemma full_flash_begin:
  "begin_update full_flash 0 =
     (True, \<lparr>polls = 0, partition = 0, totalWritten = 0,
        events = [SerialPrint (MsgFirmwareSize 4096), UpdateBegin 4096 True]\<rparr>)"
  by (simp add: eval_simps)

lemma full_flash_iterations:
  "iterations 2 full_flash \<lparr>polls = 0, partition = 0, totalWritten = 0,
        events = [SerialPrint (MsgFirmwareSize 4096), UpdateBegin 4096 True]\<rparr> =
     Some \<lparr>polls = 2, partition = 2048, totalWritten = 2048,
        events = [SerialPrint (MsgFirmwareSize 4096), UpdateBegin 4096 True,
                  UpdateWrite 2048 2048, Delay 10]\<rparr>"
  by (simp add: eval_simps)

lemma full_flash_transfer:
  "transfer full_flash 0 =
     Some (Return False, \<lparr>polls = 2, partition = 0, totalWritten = 2048,
        events = [SerialPrint (MsgFirmwareSize 4096), UpdateBegin 4096 True,
                  UpdateWrite 2048 2048, Delay 10, UpdateWrite 2048 0,
                  SerialPrint MsgWriteError, UpdateAbort, HttpEnd]\<rparr>)"
  by (simp add: eval_simps)

lemma cut_off_transfer:
  "transfer cut_off 0 =
     Some (Return False, \<lparr>polls = 1, partition = 100, totalWritten = 100,
        events = [SerialPrint (MsgFirmwareSize 4096), UpdateBegin 4096 True,
                  UpdateWrite 100 100, UpdateEnd False, SerialPrint MsgEndFailed, HttpEnd]\<rparr>)"
  by (simp add: eval_simps)

lemma unfinished_transfer:
  "transfer unfinished 0 =
     Some (Return False, \<lparr>polls = 1, partition = 100, totalWritten = 100,
        events = [SerialPrint (MsgFirmwareSize 4096), UpdateBegin 4096 True,
                  UpdateWrite 100 100, UpdateEnd True, UpdateIsFinished False,
                  SerialPrint MsgNotFinished, HttpEnd]\<rparr>)"
  by (simp add: eval_simps)

lemma read_fails_begin:
  "begin_update read_fails 0 =
     (True, \<lparr>polls = 0, partition = 0, totalWritten = 0,
        events = [SerialPrint MsgSizeUnknown, UpdateBegin 0xFFFFFFFF True]\<rparr>)"
  by (simp add: eval_simps)

lemma read_fails_iterations:
  "iterations (Suc 0) read_fails \<lparr>polls = 0, partition = 0, totalWritten = 0,
        events = [SerialPrint MsgSizeUnknown, UpdateBegin 0xFFFFFFFF True]\<rparr> =
     Some \<lparr>polls = 1, partition = 2048, totalWritten = 2048,
        events = [SerialPrint MsgSizeUnknown, UpdateBegin 0xFFFFFFFF True,
                  UpdateWrite 2048 2048]\<rparr>"
  by (simp add: eval_simps)



lemma zero_length_transfer:
  "transfer zero_length 0 =
     Some (Restarted, \<lparr>polls = 3, partition = 4096, totalWritten = 4096,
        events = [SerialPrint MsgSizeUnknown, UpdateBegin 0xFFFFFFFF True,
                  UpdateWrite 2048 2048, Delay 10, UpdateWrite 2048 2048,
                  UpdateEnd True, UpdateIsFinished True, SerialPrint (MsgSuccess 4096),
                  HttpEnd, Delay 500, EspRestart]\<rparr>)"
  by (simp add: zero_length_def eval_simps)



lemma zero_length_lib:
  "Update_begin zero_length h u = (True, 0)" "UPDATE_SIZE_UNKNOWN zero_length = 0xFFFFFFFF"
  by (simp_all add: zero_length_def)




text \<open>The run of \<open>flood\<close>: every chunk is written in full, and the counter is back at 0.\<close>

lemma flood_poll:
  assumes "i < 2 ^ 21"
  shows "available flood i = 2048" and "chunk flood i = 2048"
  using assms by (simp_all add: flood_def chunk_def sizeof_buffer_def)

lemma flood_closed: "available flood (2 ^ 21) = 0" "\<not> connected flood (2 ^ 21)"
  by (simp_all add: flood_def)

lemma flood_write:
  "u + 2048 \<le> 2 ^ 32 \<Longrightarrow> Update_write flood 2048 u = (2048, u + 2048)"
  by (simp add: flood_def)

lemma flood_step:
  assumes "p < 2 ^ 21"
  shows "copy_step flood \<lparr>polls = p, partition = 2048 * p, totalWritten = t, events = ev\<rparr> =
     Continue \<lparr>polls = Suc p, partition = 2048 * Suc p, totalWritten = t + 2048,
       events = ev @ [UpdateWrite 2048 2048]\<rparr>"
proof -
  from assms have "2048 * p + 2048 \<le> (2 :: nat) ^ 32" by simp
  then show ?thesis
    using assms by (simp add: copy_step_chunk flood_poll flood_write)
qed

lemma flood_iterations:
  "p + k \<le> 2 ^ 21 \<Longrightarrow>
   iterations k flood \<lparr>polls = p, partition = 2048 * p, totalWritten = t, events = ev\<rparr> =
     Some \<lparr>polls = p + k, partition = 2048 * (p + k), totalWritten = t + 2048 * of_nat k,
       events = ev @ replicate k (UpdateWrite 2048 2048)\<rparr>"
proof (induction k arbitrary: p t ev)
  case 0
  show ?case by simp
next
  case (Suc k)
  then have "p < 2 ^ 21" and "Suc p + k \<le> 2 ^ 21" by simp_all
  from flood_step [OF this(1)] Suc.IH [OF this(2)] show ?case
    by (simp add: replicate_append_same algebra_simps)
qed

lemma flood_begin:
  "begin_update flood 0 =
     (True, \<lparr>polls = 0, partition = 0, totalWritten = 0,
        events = [SerialPrint MsgSizeUnknown, UpdateBegin 0xFFFFFFFF True]\<rparr>)"
  by (simp add: flood_def begin_update_def word_sless_alt)

lemma flood_loop:
  "iterations (2 ^ 21) flood \<lparr>polls = 0, partition = 0, totalWritten = 0,
        events = [SerialPrint MsgSizeUnknown, UpdateBegin 0xFFFFFFFF True]\<rparr> =
     Some \<lparr>polls = 2 ^ 21, partition = 2 ^ 32, totalWritten = 0,
        events = [SerialPrint MsgSizeUnknown, UpdateBegin 0xFFFFFFFF True] @
                 replicate (2 ^ 21) (UpdateWrite 2048 2048)\<rparr>"
  using flood_iterations [of 0 "2 ^ 21" 0 "[SerialPrint MsgSizeUnknown, UpdateBegin 0xFFFFFFFF True]"]
  by simp

lemma flood_first:
  "iterations (Suc 0) flood \<lparr>polls = 0, partition = 0, totalWritten = 0,
        events = [SerialPrint MsgSizeUnknown, UpdateBegin 0xFFFFFFFF True]\<rparr> =
     Some \<lparr>polls = Suc 0, partition = 2048, totalWritten = 2048,
        events = [SerialPrint MsgSizeUnknown, UpdateBegin 0xFFFFFFFF True,
                  UpdateWrite 2048 2048]\<rparr>"
  using flood_iterations [of 0 "Suc 0" 0 "[SerialPrint MsgSizeUnknown, UpdateBegin 0xFFFFFFFF True]"]
  by simp

lemma flood_transfer:
  "transfer flood 0 =
     Some (Restarted, \<lparr>polls = 2 ^ 21, partition = 2 ^ 32, totalWritten = 0,
        events = [SerialPrint MsgSizeUnknown, UpdateBegin 0xFFFFFFFF True] @
                 replicate (2 ^ 21) (UpdateWrite 2048 2048) @
                 [UpdateEnd True, UpdateIsFinished True, SerialPrint (MsgSuccess 0),
                  HttpEnd, Delay 500, EspRestart]\<rparr>)"
proof -
  have "copy_step flood \<lparr>polls = 2 ^ 21, partition = 2 ^ 32, totalWritten = 0,
        events = [SerialPrint MsgSizeUnknown, UpdateBegin 0xFFFFFFFF True] @
                 replicate (2 ^ 21) (UpdateWrite 2048 2048)\<rparr> =
     Exit (LoopBreak \<lparr>polls = 2 ^ 21, partition = 2 ^ 32, totalWritten = 0,
        events = [SerialPrint MsgSizeUnknown, UpdateBegin 0xFFFFFFFF True] @
                 replicate (2 ^ 21) (UpdateWrite 2048 2048)\<rparr>)"
    using flood_closed by (simp add: copy_step_closed)
  from iterations_then_exit [OF flood_loop this]
  show ?thesis
    by (simp add: transfer_begun [OF flood_begin] finish_update_cases) (simp add: flood_def)
qed

lemma flood_produced: "k \<le> 2 ^ 21 \<Longrightarrow> produced flood k = 2048 * k"
  by (induction k) (simp_all add: flood_poll word_sless_alt)

section \<open>The claims\<close>

subsection \<open>Abort after a failure\<close>

text \<open>
  Claim C1. Once \<open>Update.begin\<close> has succeeded, every failure is to end with
  \<open>Update.abort()\<close>. The code calls it where a write is short (lines 142 to 147). The
  two returns after the loop (lines 151 to 161) do not call it: in \<open>cut_off\<close>, 100 of
  4096 announced bytes are written, the stream closes and \<open>Update.end()\<close> fails; in
  \<open>unfinished\<close>, \<open>Update.end()\<close> succeeds and \<open>Update.isFinished()\<close> fails. Both runs
  return false with the 100 bytes in the partition and without a call of
  \<open>Update.abort()\<close>.
\<close>

theorem finalize_failure_without_abort:
  "transfer cut_off 0 =
     Some (Return False, \<lparr>polls = 1, partition = 100, totalWritten = 100,
        events = [SerialPrint (MsgFirmwareSize 4096), UpdateBegin 4096 True,
                  UpdateWrite 100 100, UpdateEnd False, SerialPrint MsgEndFailed, HttpEnd]\<rparr>) \<and>
   aborts (events (snd (the (transfer cut_off 0)))) = 0 \<and>
   transfer unfinished 0 =
     Some (Return False, \<lparr>polls = 1, partition = 100, totalWritten = 100,
        events = [SerialPrint (MsgFirmwareSize 4096), UpdateBegin 4096 True,
                  UpdateWrite 100 100, UpdateEnd True, UpdateIsFinished False,
                  SerialPrint MsgNotFinished, HttpEnd]\<rparr>) \<and>
   aborts (events (snd (the (transfer unfinished 0)))) = 0"
  by (simp add: cut_off_transfer unfinished_transfer aborts_def)

subsection \<open>The restart\<close>

text \<open>
  Claim C2, as the code has it. A successful run does not return: after the message with
  the byte count and \<open>http.end()\<close>, \<open>performHttpUpdate\<close> waits 500 ms and calls
  \<open>ESP.restart()\<close> itself, as its last action. It never returns true, and a restart
  happens in the successful runs and in no other. The caller \<open>checkForUpdate\<close> adds
  no restart of its own: where it ends in a restart, that is the restart of
  \<open>performHttpUpdate\<close>.
\<close>

theorem restart_inside_performHttpUpdate:
  "(performHttpUpdate env url u0 = Some (x, s) \<longrightarrow>
      x \<noteq> Return True \<and>
      (x = Restarted \<longleftrightarrow> EspRestart \<in> set (events s)) \<and>
      (x = Restarted \<longrightarrow>
         (\<exists>pre. events s = pre @
            [SerialPrint (MsgSuccess (totalWritten s)), HttpEnd, Delay 500, EspRestart]))) \<and>
   (checkForUpdate cfg env u0 = Some (x, s) \<longrightarrow>
      (x = Restarted \<longleftrightarrow> EspRestart \<in> set (events s)) \<and>
      (x = Restarted \<longrightarrow> (\<exists>url. performHttpUpdate env url u0 = Some (x, s))))"
proof (intro conjI impI)
  assume p: "performHttpUpdate env url u0 = Some (x, s)"
  show "x \<noteq> Return True" by (rule performHttpUpdate_restart(1) [OF p])
  show "x = Restarted \<longleftrightarrow> EspRestart \<in> set (events s)"
    by (rule performHttpUpdate_restart(2) [OF p])
  show "\<exists>pre. events s = pre @
            [SerialPrint (MsgSuccess (totalWritten s)), HttpEnd, Delay 500, EspRestart]"
    if "x = Restarted"
    using that by (rule performHttpUpdate_restart(3) [OF p])
next
  assume c: "checkForUpdate cfg env u0 = Some (x, s)"
  from checkForUpdate_cases [OF c]
  show "x = Restarted \<longleftrightarrow> EspRestart \<in> set (events s)"
    using performHttpUpdate_restart(2) by fastforce
  from checkForUpdate_cases [OF c]
  show "\<exists>url. performHttpUpdate env url u0 = Some (x, s)" if "x = Restarted"
    using that by auto
qed

theorem restart_inside_performHttpUpdate_witness:
  "performHttpUpdate good_run sample_url 0 =
     Some (Restarted, \<lparr>polls = 3, partition = 4096, totalWritten = 4096,
        events = [SetConnectTimeout 10000, SerialPrint (MsgChecking sample_url),
                  HttpBegin sample_url True,
                  AddHeader ''X-Device-Id'' ''1234567890'',
                  AddHeader ''X-Current-Version'' ''0.1.7'', HttpGET 200,
                  SerialPrint (MsgFirmwareSize 4096), UpdateBegin 4096 True,
                  UpdateWrite 2048 2048, Delay 10, UpdateWrite 2048 2048,
                  UpdateEnd True, UpdateIsFinished True, SerialPrint (MsgSuccess 4096),
                  HttpEnd, Delay 500, EspRestart]\<rparr>) \<and>
   checkForUpdate sample_config good_run 0 =
     Some (Restarted, \<lparr>polls = 3, partition = 4096, totalWritten = 4096,
        events = [SetConnectTimeout 10000, SerialPrint (MsgChecking sample_url),
                  HttpBegin sample_url True,
                  AddHeader ''X-Device-Id'' ''1234567890'',
                  AddHeader ''X-Current-Version'' ''0.1.7'', HttpGET 200,
                  SerialPrint (MsgFirmwareSize 4096), UpdateBegin 4096 True,
                  UpdateWrite 2048 2048, Delay 10, UpdateWrite 2048 2048,
                  UpdateEnd True, UpdateIsFinished True, SerialPrint (MsgSuccess 4096),
                  HttpEnd, Delay 500, EspRestart]\<rparr>) \<and>
   Restarted \<noteq> Return True \<and>
   EspRestart \<in> set (events (snd (the (performHttpUpdate good_run sample_url 0)))) \<and>
   (\<exists>pre. events (snd (the (performHttpUpdate good_run sample_url 0))) =
      pre @ [SerialPrint (MsgSuccess 4096), HttpEnd, Delay 500, EspRestart]) \<and>
   (\<exists>url. performHttpUpdate good_run url 0 = checkForUpdate sample_config good_run 0)"
proof -
  note inst = restart_inside_performHttpUpdate [of good_run sample_url 0 Restarted
      "\<lparr>polls = 3, partition = 4096, totalWritten = 4096,
        events = [SetConnectTimeout 10000, SerialPrint (MsgChecking sample_url),
                  HttpBegin sample_url True,
                  AddHeader ''X-Device-Id'' ''1234567890'',
                  AddHeader ''X-Current-Version'' ''0.1.7'', HttpGET 200,
                  SerialPrint (MsgFirmwareSize 4096), UpdateBegin 4096 True,
                  UpdateWrite 2048 2048, Delay 10, UpdateWrite 2048 2048,
                  UpdateEnd True, UpdateIsFinished True, SerialPrint (MsgSuccess 4096),
                  HttpEnd, Delay 500, EspRestart]\<rparr>" sample_config]
  from inst show ?thesis
    by (simp add: good_run_sample_url checkForUpdate_sample)
qed

text \<open>
  Claim C2 as stated (the transfer only returns a value and performs no restart) fails on
  \<open>good_run\<close>: the run ends in \<open>ESP.restart()\<close>, inside \<open>performHttpUpdate\<close>.
\<close>

theorem good_run_restarts_inside:
  "performHttpUpdate good_run sample_url 0 =
     Some (Restarted, \<lparr>polls = 3, partition = 4096, totalWritten = 4096,
        events = [SetConnectTimeout 10000, SerialPrint (MsgChecking sample_url),
                  HttpBegin sample_url True,
                  AddHeader ''X-Device-Id'' ''1234567890'',
                  AddHeader ''X-Current-Version'' ''0.1.7'', HttpGET 200,
                  SerialPrint (MsgFirmwareSize 4096), UpdateBegin 4096 True,
                  UpdateWrite 2048 2048, Delay 10, UpdateWrite 2048 2048,
                  UpdateEnd True, UpdateIsFinished True, SerialPrint (MsgSuccess 4096),
                  HttpEnd, Delay 500, EspRestart]\<rparr>) \<and>
   last (events (snd (the (performHttpUpdate good_run sample_url 0)))) = EspRestart \<and>
   checkForUpdate sample_config good_run 0 = performHttpUpdate good_run sample_url 0"
  by (simp add: good_run_sample_url checkForUpdate_sample)

subsection \<open>The two checks after the loop\<close>

text \<open>
  Claim C3. A run that leaves the loop by \<open>break\<close> reaches \<open>Update.end()\<close>. It succeeds
  (and restarts) exactly when \<open>Update.end()\<close> returns true and \<open>Update.isFinished()\<close>
  returns true then. When \<open>Update.end()\<close> returns false, the run returns false after the
  message "Update.end() failed"; when \<open>Update.end()\<close> returns true and
  \<open>Update.isFinished()\<close> false, it returns false after the message "Update not
  finished".
\<close>

theorem finalize_needs_both_checks:
  assumes "begin_update env u0 = (True, s0)" and "copy_loop env s0 = Some (LoopBreak s1)"
  shows "\<exists>x s. transfer env u0 = Some (x, s) \<and>
     (x = Restarted \<longleftrightarrow>
        fst (Update_end env (partition s1)) \<and>
        Update_isFinished env (snd (Update_end env (partition s1)))) \<and>
     (x = Restarted \<longleftrightarrow>
        UpdateEnd True \<in> set (events s) \<and> UpdateIsFinished True \<in> set (events s)) \<and>
     (\<not> fst (Update_end env (partition s1)) \<longrightarrow>
        x = Return False \<and>
        events s = events s1 @ [UpdateEnd False, SerialPrint MsgEndFailed, HttpEnd]) \<and>
     (fst (Update_end env (partition s1)) \<and>
      \<not> Update_isFinished env (snd (Update_end env (partition s1))) \<longrightarrow>
        x = Return False \<and>
        events s = events s1 @
          [UpdateEnd True, UpdateIsFinished False, SerialPrint MsgNotFinished, HttpEnd]) \<and>
     (fst (Update_end env (partition s1)) \<and>
      Update_isFinished env (snd (Update_end env (partition s1))) \<longrightarrow>
        events s = events s1 @
          [UpdateEnd True, UpdateIsFinished True, SerialPrint (MsgSuccess (totalWritten s1)),
           HttpEnd, Delay 500, EspRestart])"
proof -
  obtain x s where f: "finish_update env s1 = (x, s)" by (cases "finish_update env s1")
  with transfer_finalize [OF assms] have t: "transfer env u0 = Some (x, s)" by simp
  note r = restarted_iff_checks [OF t]
  from f have "(x = Restarted \<longleftrightarrow>
        fst (Update_end env (partition s1)) \<and>
        Update_isFinished env (snd (Update_end env (partition s1)))) \<and>
     (\<not> fst (Update_end env (partition s1)) \<longrightarrow>
        x = Return False \<and>
        events s = events s1 @ [UpdateEnd False, SerialPrint MsgEndFailed, HttpEnd]) \<and>
     (fst (Update_end env (partition s1)) \<and>
      \<not> Update_isFinished env (snd (Update_end env (partition s1))) \<longrightarrow>
        x = Return False \<and>
        events s = events s1 @
          [UpdateEnd True, UpdateIsFinished False, SerialPrint MsgNotFinished, HttpEnd]) \<and>
     (fst (Update_end env (partition s1)) \<and>
      Update_isFinished env (snd (Update_end env (partition s1))) \<longrightarrow>
        events s = events s1 @
          [UpdateEnd True, UpdateIsFinished True, SerialPrint (MsgSuccess (totalWritten s1)),
           HttpEnd, Delay 500, EspRestart])"
    by (auto simp: finish_update_cases split: if_splits)
  with t r show ?thesis by blast
qed

theorem finalize_needs_both_checks_witness:
  "begin_update good_run 0 =
     (True, \<lparr>polls = 0, partition = 0, totalWritten = 0,
        events = [SerialPrint (MsgFirmwareSize 4096), UpdateBegin 4096 True]\<rparr>) \<and>
   copy_loop good_run \<lparr>polls = 0, partition = 0, totalWritten = 0,
        events = [SerialPrint (MsgFirmwareSize 4096), UpdateBegin 4096 True]\<rparr> =
     Some (LoopBreak \<lparr>polls = 3, partition = 4096, totalWritten = 4096,
        events = [SerialPrint (MsgFirmwareSize 4096), UpdateBegin 4096 True,
                  UpdateWrite 2048 2048, Delay 10, UpdateWrite 2048 2048]\<rparr>) \<and>
   (\<exists>x s. transfer good_run 0 = Some (x, s) \<and> x = Restarted \<and>
      UpdateEnd True \<in> set (events s) \<and> UpdateIsFinished True \<in> set (events s) \<and>
      events s = [SerialPrint (MsgFirmwareSize 4096), UpdateBegin 4096 True,
                  UpdateWrite 2048 2048, Delay 10, UpdateWrite 2048 2048,
                  UpdateEnd True, UpdateIsFinished True, SerialPrint (MsgSuccess 4096),
                  HttpEnd, Delay 500, EspRestart])"
proof -
  have checks: "fst (Update_end good_run 4096)"
    "Update_isFinished good_run (snd (Update_end good_run 4096))"
    by (simp_all add: good_run_def)
  from finalize_needs_both_checks [OF good_run_begin good_run_loop] checks
  show ?thesis
    by (auto simp: good_run_begin good_run_loop)
qed

subsection \<open>The byte count\<close>

text \<open>
  Claim C4, as the code has it. \<open>totalWritten\<close> is a 32-bit \<open>size_t\<close> and starts at 0. In
  every session of the loop and in every run that returns, it is the sum, modulo
  \<open>2 ^ 32\<close>, of the acknowledgements of the writes acknowledged in full, which is the
  number of bytes \<open>readBytes\<close> has handed over; in a successful run, the count printed is
  the number of bytes the stream has produced, modulo \<open>2 ^ 32\<close>. The sum itself never
  decreases from one iteration to a later one. As long as the sum is below \<open>2 ^ 32\<close>,
  \<open>totalWritten\<close> is the sum itself and does not decrease.
\<close>

theorem bytes_written_accounting:
  assumes "begin_update env u0 = (True, s0)"
  shows "totalWritten s0 = 0 \<and>
    (\<forall>n s. iterations n env s0 = Some s \<longrightarrow>
        totalWritten s = of_nat (acknowledged (events s)) \<and>
        acknowledged (events s) = produced env n \<and>
        unat (totalWritten s) = acknowledged (events s) mod 2 ^ 32 \<and>
        (acknowledged (events s) < 2 ^ 32 \<longrightarrow> unat (totalWritten s) = acknowledged (events s))) \<and>
    (\<forall>m d s s'. iterations m env s0 = Some s \<and> iterations (m + d) env s0 = Some s' \<longrightarrow>
        acknowledged (events s) \<le> acknowledged (events s') \<and>
        (acknowledged (events s') < 2 ^ 32 \<longrightarrow> totalWritten s \<le> totalWritten s')) \<and>
    (\<forall>x s. transfer env u0 = Some (x, s) \<longrightarrow>
        totalWritten s = of_nat (acknowledged (events s)) \<and>
        unat (totalWritten s) = acknowledged (events s) mod 2 ^ 32 \<and>
        (acknowledged (events s) < 2 ^ 32 \<longrightarrow> unat (totalWritten s) = acknowledged (events s))) \<and>
    (\<forall>s. transfer env u0 = Some (Restarted, s) \<longrightarrow>
        SerialPrint (MsgSuccess (totalWritten s)) \<in> set (events s) \<and>
        totalWritten s = of_nat (produced env (polls s)) \<and>
        unat (totalWritten s) = produced env (polls s) mod 2 ^ 32 \<and>
        (produced env (polls s) < 2 ^ 32 \<longrightarrow> unat (totalWritten s) = produced env (polls s)))"
proof (intro conjI allI impI)
  show "totalWritten s0 = 0" using begin_update_session [OF assms] by simp
next
  fix n s assume "iterations n env s0 = Some s"
  note a = iterations_accounting [OF assms this]
  show "totalWritten s = of_nat (acknowledged (events s))" by (rule a(1))
  show "acknowledged (events s) = produced env n" by (rule a(2))
  show "unat (totalWritten s) = acknowledged (events s) mod 2 ^ 32"
    unfolding a(1) by (simp add: unat_of_nat)
  show "unat (totalWritten s) = acknowledged (events s)" if "acknowledged (events s) < 2 ^ 32"
    unfolding a(1) using that by (rule unat_total)
next
  fix m d s s' assume it: "iterations m env s0 = Some s \<and> iterations (m + d) env s0 = Some s'"
  then have le: "acknowledged (events s) \<le> acknowledged (events s')"
    using iterations_monotone by blast
  then show "acknowledged (events s) \<le> acknowledged (events s')" .
  show "totalWritten s \<le> totalWritten s'" if small: "acknowledged (events s') < 2 ^ 32"
  proof -
    from it have "totalWritten s = of_nat (acknowledged (events s))"
      "totalWritten s' = of_nat (acknowledged (events s'))"
      using iterations_accounting(1) [OF assms] by blast+
    moreover from le small have "acknowledged (events s) < 2 ^ 32" by simp
    ultimately show ?thesis using le small by (simp add: word_le_nat_alt unat_total)
  qed
next
  fix x s assume "transfer env u0 = Some (x, s)"
  note a = transfer_accounting [OF this]
  show "totalWritten s = of_nat (acknowledged (events s))" by (rule a)
  show "unat (totalWritten s) = acknowledged (events s) mod 2 ^ 32"
    unfolding a by (simp add: unat_of_nat)
  show "unat (totalWritten s) = acknowledged (events s)" if "acknowledged (events s) < 2 ^ 32"
    unfolding a using that by (rule unat_total)
next
  fix s assume r: "transfer env u0 = Some (Restarted, s)"
  note a = transfer_accounting [OF r] restarted_accounting [OF r]
  show "SerialPrint (MsgSuccess (totalWritten s)) \<in> set (events s)" by (rule a(2))
  show t: "totalWritten s = of_nat (produced env (polls s))" using a(1) a(3) by simp
  show "unat (totalWritten s) = produced env (polls s) mod 2 ^ 32"
    unfolding t by (simp add: unat_of_nat)
  show "unat (totalWritten s) = produced env (polls s)" if "produced env (polls s) < 2 ^ 32"
    unfolding t using that by (rule unat_total)
qed

theorem bytes_written_accounting_witness:
  "begin_update good_run 0 =
     (True, \<lparr>polls = 0, partition = 0, totalWritten = 0,
        events = [SerialPrint (MsgFirmwareSize 4096), UpdateBegin 4096 True]\<rparr>) \<and>
   iterations 3 good_run \<lparr>polls = 0, partition = 0, totalWritten = 0,
        events = [SerialPrint (MsgFirmwareSize 4096), UpdateBegin 4096 True]\<rparr> =
     Some \<lparr>polls = 3, partition = 4096, totalWritten = 4096,
        events = [SerialPrint (MsgFirmwareSize 4096), UpdateBegin 4096 True,
                  UpdateWrite 2048 2048, Delay 10, UpdateWrite 2048 2048]\<rparr> \<and>
   (4096 :: size_t) = of_nat (acknowledged [SerialPrint (MsgFirmwareSize 4096), UpdateBegin 4096 True,
                  UpdateWrite 2048 2048, Delay 10, UpdateWrite 2048 2048]) \<and>
   acknowledged [SerialPrint (MsgFirmwareSize 4096), UpdateBegin 4096 True,
                  UpdateWrite 2048 2048, Delay 10, UpdateWrite 2048 2048] = produced good_run 3 \<and>
   produced good_run 3 = 4096 \<and> (4096 :: nat) < 2 ^ 32 \<and> unat (4096 :: size_t) = 4096 \<and>
   transfer good_run 0 =
     Some (Restarted, \<lparr>polls = 3, partition = 4096, totalWritten = 4096,
        events = [SerialPrint (MsgFirmwareSize 4096), UpdateBegin 4096 True,
                  UpdateWrite 2048 2048, Delay 10, UpdateWrite 2048 2048,
                  UpdateEnd True, UpdateIsFinished True, SerialPrint (MsgSuccess 4096),
                  HttpEnd, Delay 500, EspRestart]\<rparr>)"
proof -
  note inst = bytes_written_accounting [OF good_run_begin]
  note loop = inst [THEN conjunct2, THEN conjunct1, THEN spec, THEN spec, THEN mp,
      OF good_run_iterations]
  have "produced good_run 3 = 4096"
    by (simp add: eval_simps)
  with loop show ?thesis
    by (simp add: good_run_begin good_run_iterations good_run_transfer)
qed

text \<open>
  Claim C4 as stated (the count is the number of bytes produced, and never decreases)
  fails on \<open>flood\<close>: after the first chunk \<open>totalWritten\<close> is 2048, after the last one
  it is 0, and the successful run reports 0 bytes where the stream has produced
  \<open>2 ^ 32\<close>.
\<close>

theorem counter_wraps_around:
  "iterations (Suc 0) flood \<lparr>polls = 0, partition = 0, totalWritten = 0,
        events = [SerialPrint MsgSizeUnknown, UpdateBegin 0xFFFFFFFF True]\<rparr> =
     Some \<lparr>polls = Suc 0, partition = 2048, totalWritten = 2048,
        events = [SerialPrint MsgSizeUnknown, UpdateBegin 0xFFFFFFFF True,
                  UpdateWrite 2048 2048]\<rparr> \<and>
   iterations (2 ^ 21) flood \<lparr>polls = 0, partition = 0, totalWritten = 0,
        events = [SerialPrint MsgSizeUnknown, UpdateBegin 0xFFFFFFFF True]\<rparr> =
     Some \<lparr>polls = 2 ^ 21, partition = 2 ^ 32, totalWritten = 0,
        events = [SerialPrint MsgSizeUnknown, UpdateBegin 0xFFFFFFFF True] @
                 replicate (2 ^ 21) (UpdateWrite 2048 2048)\<rparr> \<and>
   transfer flood 0 =
     Some (Restarted, \<lparr>polls = 2 ^ 21, partition = 2 ^ 32, totalWritten = 0,
        events = [SerialPrint MsgSizeUnknown, UpdateBegin 0xFFFFFFFF True] @
                 replicate (2 ^ 21) (UpdateWrite 2048 2048) @
                 [UpdateEnd True, UpdateIsFinished True, SerialPrint (MsgSuccess 0),
                  HttpEnd, Delay 500, EspRestart]\<rparr>) \<and>
   produced flood (2 ^ 21) = 2 ^ 32 \<and>
   unat (totalWritten (snd (the (transfer flood 0)))) \<noteq> produced flood (2 ^ 21)"
proof -
  have p: "produced flood (2 ^ 21) = 2 ^ 32"
    using flood_produced [of "2 ^ 21"] by simp
  have d: "unat (totalWritten (snd (the (transfer flood 0)))) \<noteq> produced flood (2 ^ 21)"
    unfolding p flood_transfer by simp
  show ?thesis
    by (intro conjI) (rule flood_first flood_loop flood_transfer p d)+
qed

subsection \<open>A short write\<close>

text \<open>
  Claim C5. When \<open>Update.write\<close> acknowledges another count than the one requested (in
  particular a smaller one), the run returns false after the message "Write error,
  aborting", \<open>Update.abort()\<close> is called exactly once, and the short write is the last
  write. The first part starts from the answer of \<open>Update.write\<close> in an iteration the
  run reaches: the run returns false there, its events are those made so far (without
  an abort, with full writes only) followed by the write, the message, the abort and
  \<open>http.end()\<close>, and the partition is the one \<open>Update.abort()\<close> leaves. The second part
  is about any run with such a write among its events.
\<close>

theorem short_write_is_fatal:
  "(begin_update env u0 = (True, s0) \<and> iterations k env s0 = Some s1 \<and>
      available env (polls s1) \<noteq> 0 \<and> 0 <s chunk env (polls s1) \<and>
      Update_write env (chunk env (polls s1)) (partition s1) = (a, u') \<and>
      a \<noteq> chunk env (polls s1)
    \<longrightarrow> transfer env u0 =
          Some (Return False, s1\<lparr>partition := Update_abort env u',
            events := events s1 @
              [UpdateWrite (chunk env (polls s1)) a, SerialPrint MsgWriteError, UpdateAbort,
               HttpEnd]\<rparr>) \<and>
        aborts (events s1) = 0 \<and>
        aborts (events s1 @
              [UpdateWrite (chunk env (polls s1)) a, SerialPrint MsgWriteError, UpdateAbort,
               HttpEnd]) = 1 \<and>
        (\<forall>(n, b) \<in> set (writes (events s1)). b = n) \<and>
        writes (events s1 @
              [UpdateWrite (chunk env (polls s1)) a, SerialPrint MsgWriteError, UpdateAbort,
               HttpEnd]) = writes (events s1) @ [(chunk env (polls s1), a)]) \<and>
   (transfer env u0 = Some (x, s) \<and> (n, a) \<in> set (writes (events s)) \<and> a \<noteq> n
    \<longrightarrow> x = Return False \<and> aborts (events s) = 1 \<and>
       (\<exists>pre. events s = pre @ [UpdateWrite n a, SerialPrint MsgWriteError, UpdateAbort, HttpEnd] \<and>
          (\<forall>(k, b) \<in> set (writes pre). b = k)))"
proof (rule conjI)
  show "begin_update env u0 = (True, s0) \<and> iterations k env s0 = Some s1 \<and>
      available env (polls s1) \<noteq> 0 \<and> 0 <s chunk env (polls s1) \<and>
      Update_write env (chunk env (polls s1)) (partition s1) = (a, u') \<and>
      a \<noteq> chunk env (polls s1)
    \<longrightarrow> transfer env u0 =
          Some (Return False, s1\<lparr>partition := Update_abort env u',
            events := events s1 @
              [UpdateWrite (chunk env (polls s1)) a, SerialPrint MsgWriteError, UpdateAbort,
               HttpEnd]\<rparr>) \<and>
        aborts (events s1) = 0 \<and>
        aborts (events s1 @
              [UpdateWrite (chunk env (polls s1)) a, SerialPrint MsgWriteError, UpdateAbort,
               HttpEnd]) = 1 \<and>
        (\<forall>(n, b) \<in> set (writes (events s1)). b = n) \<and>
        writes (events s1 @
              [UpdateWrite (chunk env (polls s1)) a, SerialPrint MsgWriteError, UpdateAbort,
               HttpEnd]) = writes (events s1) @ [(chunk env (polls s1), a)]"
  proof (intro impI conjI)
    assume h: "begin_update env u0 = (True, s0) \<and> iterations k env s0 = Some s1 \<and>
      available env (polls s1) \<noteq> 0 \<and> 0 <s chunk env (polls s1) \<and>
      Update_write env (chunk env (polls s1)) (partition s1) = (a, u') \<and>
      a \<noteq> chunk env (polls s1)"
    then have r: "transfer env u0 =
          Some (Return False, s1\<lparr>partition := Update_abort env u',
            events := events s1 @
              [UpdateWrite (chunk env (polls s1)) a, SerialPrint MsgWriteError, UpdateAbort,
               HttpEnd]\<rparr>)"
      "aborts (events s1) = 0" "\<forall>(n, b) \<in> set (writes (events s1)). b = n"
      using short_write_run [of env u0 s0 k s1 a u'] by blast+
    show "transfer env u0 =
          Some (Return False, s1\<lparr>partition := Update_abort env u',
            events := events s1 @
              [UpdateWrite (chunk env (polls s1)) a, SerialPrint MsgWriteError, UpdateAbort,
               HttpEnd]\<rparr>)" by (rule r(1))
    show "aborts (events s1) = 0" by (rule r(2))
    show "aborts (events s1 @
              [UpdateWrite (chunk env (polls s1)) a, SerialPrint MsgWriteError, UpdateAbort,
               HttpEnd]) = 1"
      using r(2) by (simp add: aborts_append) (simp add: aborts_def)
    show "\<forall>(n, b) \<in> set (writes (events s1)). b = n" by (rule r(3))
    show "writes (events s1 @
              [UpdateWrite (chunk env (polls s1)) a, SerialPrint MsgWriteError, UpdateAbort,
               HttpEnd]) = writes (events s1) @ [(chunk env (polls s1), a)]"
      by (simp add: writes_append)
  qed
  show "transfer env u0 = Some (x, s) \<and> (n, a) \<in> set (writes (events s)) \<and> a \<noteq> n
    \<longrightarrow> x = Return False \<and> aborts (events s) = 1 \<and>
       (\<exists>pre. events s = pre @ [UpdateWrite n a, SerialPrint MsgWriteError, UpdateAbort, HttpEnd] \<and>
          (\<forall>(k, b) \<in> set (writes pre). b = k))"
    using short_write_last [of env u0 x s n a] by blast
qed

theorem short_write_is_fatal_witness:
  "begin_update full_flash 0 =
     (True, \<lparr>polls = 0, partition = 0, totalWritten = 0,
        events = [SerialPrint (MsgFirmwareSize 4096), UpdateBegin 4096 True]\<rparr>) \<and>
   iterations 2 full_flash \<lparr>polls = 0, partition = 0, totalWritten = 0,
        events = [SerialPrint (MsgFirmwareSize 4096), UpdateBegin 4096 True]\<rparr> =
     Some \<lparr>polls = 2, partition = 2048, totalWritten = 2048,
        events = [SerialPrint (MsgFirmwareSize 4096), UpdateBegin 4096 True,
                  UpdateWrite 2048 2048, Delay 10]\<rparr> \<and>
   available full_flash 2 \<noteq> 0 \<and> 0 <s chunk full_flash 2 \<and> chunk full_flash 2 = 2048 \<and>
   Update_write full_flash (chunk full_flash 2) 2048 = (0, 2048) \<and>
   (0 :: size_t) \<noteq> chunk full_flash 2 \<and>
   transfer full_flash 0 =
     Some (Return False, \<lparr>polls = 2, partition = 0, totalWritten = 2048,
        events = [SerialPrint (MsgFirmwareSize 4096), UpdateBegin 4096 True,
                  UpdateWrite 2048 2048, Delay 10, UpdateWrite 2048 0,
                  SerialPrint MsgWriteError, UpdateAbort, HttpEnd]\<rparr>) \<and>
   aborts [SerialPrint (MsgFirmwareSize 4096), UpdateBegin 4096 True,
           UpdateWrite 2048 2048, Delay 10] = 0 \<and>
   aborts [SerialPrint (MsgFirmwareSize 4096), UpdateBegin 4096 True,
           UpdateWrite 2048 2048, Delay 10, UpdateWrite 2048 0,
           SerialPrint MsgWriteError, UpdateAbort, HttpEnd] = 1 \<and>
   (2048, 0) \<in> set (writes [SerialPrint (MsgFirmwareSize 4096), UpdateBegin 4096 True,
                  UpdateWrite 2048 2048, Delay 10, UpdateWrite 2048 0,
                  SerialPrint MsgWriteError, UpdateAbort, HttpEnd]) \<and>
   (\<exists>pre. [SerialPrint (MsgFirmwareSize 4096), UpdateBegin 4096 True,
           UpdateWrite 2048 2048, Delay 10, UpdateWrite 2048 0,
           SerialPrint MsgWriteError, UpdateAbort, HttpEnd] =
        pre @ [UpdateWrite 2048 0, SerialPrint MsgWriteError, UpdateAbort, HttpEnd] \<and>
        (\<forall>(k, b) \<in> set (writes pre). b = k))"
proof -
  have w: "available full_flash 2 \<noteq> 0" "0 <s chunk full_flash 2" "chunk full_flash 2 = 2048"
    "Update_write full_flash (chunk full_flash 2) 2048 = (0, 2048)"
    "(0 :: size_t) \<noteq> chunk full_flash 2"
    by (simp_all add: full_flash_def two_chunks_def chunk_def sizeof_buffer_def word_sless_alt)
  note inst = short_write_is_fatal [of full_flash 0
      "\<lparr>polls = 0, partition = 0, totalWritten = 0,
        events = [SerialPrint (MsgFirmwareSize 4096), UpdateBegin 4096 True]\<rparr>" 2
      "\<lparr>polls = 2, partition = 2048, totalWritten = 2048,
        events = [SerialPrint (MsgFirmwareSize 4096), UpdateBegin 4096 True,
                  UpdateWrite 2048 2048, Delay 10]\<rparr>"
      0 2048
      "Return False"
      "\<lparr>polls = 2, partition = 0, totalWritten = 2048,
        events = [SerialPrint (MsgFirmwareSize 4096), UpdateBegin 4096 True,
                  UpdateWrite 2048 2048, Delay 10, UpdateWrite 2048 0,
                  SerialPrint MsgWriteError, UpdateAbort, HttpEnd]\<rparr>" 2048]
  from inst w show ?thesis
    by (simp add: full_flash_begin full_flash_iterations full_flash_transfer)
qed

subsection \<open>A stream without bytes\<close>




subsection \<open>An unknown length\<close>

text \<open>
  Claim C7. With a content length that is 0 or negative, the message is "Firmware size
  unknown" and the update is begun with \<open>Update.begin(UPDATE_SIZE_UNKNOWN)\<close>: its answer
  and the state it leaves are those of the session. There is no shortcut: when
  \<open>Update.begin\<close> fails the run returns false, and otherwise the run is the copy loop
  from that session, followed by the two checks; a run that succeeds has passed
  \<open>Update.begin\<close>, \<open>Update.end()\<close> and \<open>Update.isFinished()\<close>. The run is the same for
  any other non-positive length, so for the \<open>-1\<close> of a response without a length. The
  length is an \<open>int\<close>, so there is no malformed value.
\<close>

theorem nonpositive_length_is_unknown:
  assumes "sint (http_getSize env) \<le> 0" and "sint l \<le> 0"
  shows "begin_update env u0 =
       (fst (Update_begin env (UPDATE_SIZE_UNKNOWN env) u0),
        \<lparr>polls = 0, partition = snd (Update_begin env (UPDATE_SIZE_UNKNOWN env) u0),
         totalWritten = 0,
         events = [SerialPrint MsgSizeUnknown,
                   UpdateBegin (UPDATE_SIZE_UNKNOWN env)
                     (fst (Update_begin env (UPDATE_SIZE_UNKNOWN env) u0))]\<rparr>) \<and>
     transfer env u0 =
       (if \<not> fst (Update_begin env (UPDATE_SIZE_UNKNOWN env) u0) then
          Some (Return False,
            \<lparr>polls = 0, partition = snd (Update_begin env (UPDATE_SIZE_UNKNOWN env) u0),
             totalWritten = 0,
             events = [SerialPrint MsgSizeUnknown, UpdateBegin (UPDATE_SIZE_UNKNOWN env) False,
                       SerialPrint MsgBeginFailed, HttpEnd]\<rparr>)
        else
          (case copy_loop env
                  \<lparr>polls = 0, partition = snd (Update_begin env (UPDATE_SIZE_UNKNOWN env) u0),
                   totalWritten = 0,
                   events = [SerialPrint MsgSizeUnknown,
                             UpdateBegin (UPDATE_SIZE_UNKNOWN env) True]\<rparr> of
             None \<Rightarrow> None
           | Some (LoopReturnFalse s) \<Rightarrow> Some (Return False, s)
           | Some (LoopBreak s) \<Rightarrow> Some (finish_update env s))) \<and>
     begin_update env u0 = begin_update (env\<lparr>http_getSize := l\<rparr>) u0 \<and>
     transfer env u0 = transfer (env\<lparr>http_getSize := l\<rparr>) u0 \<and>
     performHttpUpdate env url u0 = performHttpUpdate (env\<lparr>http_getSize := l\<rparr>) url u0 \<and>
     (\<forall>s. transfer env u0 = Some (Restarted, s) \<longrightarrow>
        fst (Update_begin env (UPDATE_SIZE_UNKNOWN env) u0) \<and>
        (\<exists>ws. events s = [SerialPrint MsgSizeUnknown, UpdateBegin (UPDATE_SIZE_UNKNOWN env) True] @ ws @
           [UpdateEnd True, UpdateIsFinished True, SerialPrint (MsgSuccess (totalWritten s)),
            HttpEnd, Delay 500, EspRestart]))"
proof -
  note bu = begin_update_unknown [OF assms(1), of u0]
  have l: "sint (http_getSize (env\<lparr>http_getSize := l\<rparr>)) \<le> 0" using assms(2) by simp
  have b: "begin_update env u0 = begin_update (env\<lparr>http_getSize := l\<rparr>) u0"
    unfolding begin_update_unknown [OF assms(1)] begin_update_unknown [OF l] by simp
  have t: "transfer env u0 = transfer (env\<lparr>http_getSize := l\<rparr>) u0"
    by (rule transfer_cong) (simp_all add: b)
  have p: "performHttpUpdate env url u0 = performHttpUpdate (env\<lparr>http_getSize := l\<rparr>) url u0"
    by (rule performHttpUpdate_cong) (simp_all add: t)
  have run: "transfer env u0 =
       (if \<not> fst (Update_begin env (UPDATE_SIZE_UNKNOWN env) u0) then
          Some (Return False,
            \<lparr>polls = 0, partition = snd (Update_begin env (UPDATE_SIZE_UNKNOWN env) u0),
             totalWritten = 0,
             events = [SerialPrint MsgSizeUnknown, UpdateBegin (UPDATE_SIZE_UNKNOWN env) False,
                       SerialPrint MsgBeginFailed, HttpEnd]\<rparr>)
        else
          (case copy_loop env
                  \<lparr>polls = 0, partition = snd (Update_begin env (UPDATE_SIZE_UNKNOWN env) u0),
                   totalWritten = 0,
                   events = [SerialPrint MsgSizeUnknown,
                             UpdateBegin (UPDATE_SIZE_UNKNOWN env) True]\<rparr> of
             None \<Rightarrow> None
           | Some (LoopReturnFalse s) \<Rightarrow> Some (Return False, s)
           | Some (LoopBreak s) \<Rightarrow> Some (finish_update env s)))"
    unfolding transfer_begun [OF bu]
    by (cases "fst (Update_begin env (UPDATE_SIZE_UNKNOWN env) u0)") simp_all
  have r: "fst (Update_begin env (UPDATE_SIZE_UNKNOWN env) u0) \<and>
      (\<exists>ws. events s = [SerialPrint MsgSizeUnknown, UpdateBegin (UPDATE_SIZE_UNKNOWN env) True] @ ws @
           [UpdateEnd True, UpdateIsFinished True, SerialPrint (MsgSuccess (totalWritten s)),
            HttpEnd, Delay 500, EspRestart])"
    if "transfer env u0 = Some (Restarted, s)" for s
  proof -
    from transfer_restarted [OF that] obtain s0 ws
      where "begin_update env u0 = (True, s0)"
        "events s = events s0 @ ws @ [UpdateEnd True, UpdateIsFinished True,
            SerialPrint (MsgSuccess (totalWritten s)), HttpEnd, Delay 500, EspRestart]"
      by blast
    then show ?thesis unfolding bu by auto
  qed
  show ?thesis
    by (intro conjI allI impI) (rule bu, rule run, rule b, rule t, rule p,
        erule r [THEN conjunct1], erule r [THEN conjunct2])
qed

theorem nonpositive_length_is_unknown_witness:
  "sint (http_getSize zero_length) \<le> 0 \<and> sint (- 1 :: c_int) \<le> 0 \<and>
   http_getSize zero_length = 0 \<and>
   Update_begin zero_length (UPDATE_SIZE_UNKNOWN zero_length) 0 = (True, 0) \<and>
   begin_update zero_length 0 =
     (True, \<lparr>polls = 0, partition = 0, totalWritten = 0,
        events = [SerialPrint MsgSizeUnknown, UpdateBegin 0xFFFFFFFF True]\<rparr>) \<and>
   begin_update zero_length 0 = begin_update (zero_length\<lparr>http_getSize := - 1\<rparr>) 0 \<and>
   transfer zero_length 0 = transfer (zero_length\<lparr>http_getSize := - 1\<rparr>) 0 \<and>
   performHttpUpdate zero_length sample_url 0 =
     performHttpUpdate (zero_length\<lparr>http_getSize := - 1\<rparr>) sample_url 0 \<and>
   transfer zero_length 0 =
     Some (Restarted, \<lparr>polls = 3, partition = 4096, totalWritten = 4096,
        events = [SerialPrint MsgSizeUnknown, UpdateBegin 0xFFFFFFFF True,
                  UpdateWrite 2048 2048, Delay 10, UpdateWrite 2048 2048,
                  UpdateEnd True, UpdateIsFinished True, SerialPrint (MsgSuccess 4096),
                  HttpEnd, Delay 500, EspRestart]\<rparr>) \<and>
   fst (Update_begin zero_length (UPDATE_SIZE_UNKNOWN zero_length) 0)"
proof -
  have h: "sint (http_getSize zero_length) \<le> 0" "sint (- 1 :: c_int) \<le> 0"
    "http_getSize zero_length = 0"
    by (simp_all add: zero_length_def)
  note inst = nonpositive_length_is_unknown [OF h(1,2), of 0 sample_url]
  have b: "begin_update zero_length 0 =
     (True, \<lparr>polls = 0, partition = 0, totalWritten = 0,
        events = [SerialPrint MsgSizeUnknown, UpdateBegin 0xFFFFFFFF True]\<rparr>)"
    using inst [THEN conjunct1] by (simp add: zero_length_lib)
  note parts = inst [THEN conjunct2, THEN conjunct2, THEN conjunct1]
    inst [THEN conjunct2, THEN conjunct2, THEN conjunct2, THEN conjunct1]
    inst [THEN conjunct2, THEN conjunct2, THEN conjunct2, THEN conjunct2, THEN conjunct1]
    inst [THEN conjunct2, THEN conjunct2, THEN conjunct2, THEN conjunct2, THEN conjunct2,
      THEN spec, THEN mp, OF zero_length_transfer, THEN conjunct1]
  show ?thesis
    by (intro conjI) (rule h b parts zero_length_transfer zero_length_lib)+
qed

subsection \<open>Termination\<close>

text \<open>
  Claim C8. If the stream reports itself closed at some poll (no bytes available and not
  connected), the copy loop is left and the run ends, with a return or with the
  restart. Nothing is assumed about the declared length: it holds for a known and for an
  unknown size alike. It is stated for the transfer and for the whole of
  \<open>performHttpUpdate\<close>.
\<close>

theorem closed_stream_terminates:
  assumes "available env n = 0" and "\<not> connected env n"
  shows "(\<exists>x s. transfer env u0 = Some (x, s) \<and> (x = Return False \<or> x = Restarted)) \<and>
         (\<exists>x s. performHttpUpdate env url u0 = Some (x, s) \<and> (x = Return False \<or> x = Restarted))"
proof -
  from transfer_returns [OF assms] obtain r where t: "transfer env u0 = Some r" by blast
  then have "\<exists>x s. transfer env u0 = Some (x, s)" by (cases r) simp
  moreover from performHttpUpdate_returns [OF t]
  have "\<exists>y t. performHttpUpdate env url u0 = Some (y, t)" .
  ultimately show ?thesis by (meson transfer_exit performHttpUpdate_exit)
qed

theorem closed_stream_terminates_witness:
  "available (scripted [(2048, True, 2048), (0, True, 0), (4000, True, 2048)] (-1) 100000 True True) 3 = 0 \<and>
   \<not> connected (scripted [(2048, True, 2048), (0, True, 0), (4000, True, 2048)] (-1) 100000 True True) 3 \<and>
   (\<exists>x s. transfer (scripted [(2048, True, 2048), (0, True, 0), (4000, True, 2048)] (-1) 100000 True True) 0
             = Some (x, s) \<and> (x = Return False \<or> x = Restarted)) \<and>
   (\<exists>x s. performHttpUpdate (scripted [(2048, True, 2048), (0, True, 0), (4000, True, 2048)] (-1) 100000 True True)
             ''http://ota.example/firmware'' 0 = Some (x, s) \<and> (x = Return False \<or> x = Restarted))"
  using closed_stream_terminates
    [of "scripted [(2048, True, 2048), (0, True, 0), (4000, True, 2048)] (-1) 100000 True True" 3 0
        "''http://ota.example/firmware''"]
  by simp

subsection \<open>The same stream, the same outcome\<close>




subsection \<open>A read that returns nothing\<close>

text \<open>
  Claim C10. When bytes are available and \<open>readBytes\<close> returns zero or a negative count,
  the iteration leaves the loop by \<open>break\<close> with the session unchanged, as for a closed
  stream. The run goes on with \<open>Update.end()\<close>; \<open>Update.abort()\<close> is not called and no
  write error is reported.
\<close>

theorem failed_read_leaves_loop_quietly:
  assumes "begin_update env u0 = (True, s0)" and "iterations k env s0 = Some s1"
    and "available env (polls s1) \<noteq> 0"
    and "sint (readBytes env (polls s1)
           (if sizeof_buffer < available env (polls s1) then sizeof_buffer
            else available env (polls s1))) \<le> 0"
  shows "copy_step env s1 = Exit (LoopBreak s1) \<and>
     copy_loop env s0 = Some (LoopBreak s1) \<and>
     transfer env u0 = Some (finish_update env s1) \<and>
     (\<exists>ok rest. events (snd (finish_update env s1)) = events s1 @ UpdateEnd ok # rest) \<and>
     aborts (events (snd (finish_update env s1))) = 0 \<and>
     SerialPrint MsgWriteError \<notin> set (events (snd (finish_update env s1)))"
proof -
  have st: "copy_step env s1 = Exit (LoopBreak s1)"
    using assms(3,4) by (simp add: copy_step_def Let_def)
  from iterations_then_exit [OF assms(2) st] have loop: "copy_loop env s0 = Some (LoopBreak s1)" .
  from transfer_finalize [OF assms(1) loop] have t: "transfer env u0 = Some (finish_update env s1)" .
  from iterations_inv [OF assms(2)] obtain ws where ws: "events s1 = events s0 @ ws" "loop_events ws"
    by blast
  note q = begin_events_quiet [OF assms(1)] loop_events_quiet [OF ws(2)]
  from begin_update_session [OF assms(1)] have "SerialPrint MsgWriteError \<notin> set (events s0)"
    by (simp split: if_splits)
  with ws(1) q(9) have "SerialPrint MsgWriteError \<notin> set (events s1)" by simp
  moreover have "aborts (events s1) = 0" using ws(1) q(2) q(7) by (simp add: aborts_append)
  ultimately have "(\<exists>ok rest. events (snd (finish_update env s1)) = events s1 @ UpdateEnd ok # rest) \<and>
     aborts (events (snd (finish_update env s1))) = 0 \<and>
     SerialPrint MsgWriteError \<notin> set (events (snd (finish_update env s1)))"
    by (auto simp: finish_update_cases aborts_def)
  with st loop t show ?thesis by blast
qed

theorem failed_read_leaves_loop_quietly_witness:
  "begin_update read_fails 0 =
     (True, \<lparr>polls = 0, partition = 0, totalWritten = 0,
        events = [SerialPrint MsgSizeUnknown, UpdateBegin 0xFFFFFFFF True]\<rparr>) \<and>
   iterations (Suc 0) read_fails \<lparr>polls = 0, partition = 0, totalWritten = 0,
        events = [SerialPrint MsgSizeUnknown, UpdateBegin 0xFFFFFFFF True]\<rparr> =
     Some \<lparr>polls = 1, partition = 2048, totalWritten = 2048,
        events = [SerialPrint MsgSizeUnknown, UpdateBegin 0xFFFFFFFF True,
                  UpdateWrite 2048 2048]\<rparr> \<and>
   available read_fails 1 = 512 \<and> connected read_fails 1 \<and>
   sint (readBytes read_fails 1 512) \<le> 0 \<and>
   copy_loop read_fails \<lparr>polls = 0, partition = 0, totalWritten = 0,
        events = [SerialPrint MsgSizeUnknown, UpdateBegin 0xFFFFFFFF True]\<rparr> =
     Some (LoopBreak \<lparr>polls = 1, partition = 2048, totalWritten = 2048,
        events = [SerialPrint MsgSizeUnknown, UpdateBegin 0xFFFFFFFF True,
                  UpdateWrite 2048 2048]\<rparr>) \<and>
   transfer read_fails 0 =
     Some (finish_update read_fails \<lparr>polls = 1, partition = 2048, totalWritten = 2048,
        events = [SerialPrint MsgSizeUnknown, UpdateBegin 0xFFFFFFFF True,
                  UpdateWrite 2048 2048]\<rparr>) \<and>
   aborts (events (snd (finish_update read_fails \<lparr>polls = 1, partition = 2048, totalWritten = 2048,
        events = [SerialPrint MsgSizeUnknown, UpdateBegin 0xFFFFFFFF True,
                  UpdateWrite 2048 2048]\<rparr>))) = 0 \<and>
   SerialPrint MsgWriteError \<notin> set (events (snd (finish_update read_fails
      \<lparr>polls = 1, partition = 2048, totalWritten = 2048,
        events = [SerialPrint MsgSizeUnknown, UpdateBegin 0xFFFFFFFF True,
                  UpdateWrite 2048 2048]\<rparr>)))"
proof -
  have poll: "available read_fails 1 = 512" "connected read_fails 1"
    "sint (readBytes read_fails 1 512) \<le> 0"
    by (simp_all add: read_fails_def)
  have h: "available read_fails (polls \<lparr>polls = 1, partition = 2048 :: nat, totalWritten = 2048,
        events = [SerialPrint MsgSizeUnknown, UpdateBegin 0xFFFFFFFF True,
                  UpdateWrite 2048 2048]\<rparr>) \<noteq> 0"
    "sint (readBytes read_fails (polls \<lparr>polls = 1, partition = 2048 :: nat, totalWritten = 2048,
        events = [SerialPrint MsgSizeUnknown, UpdateBegin 0xFFFFFFFF True,
                  UpdateWrite 2048 2048]\<rparr>)
       (if sizeof_buffer < available read_fails (polls \<lparr>polls = 1, partition = 2048 :: nat,
             totalWritten = 2048,
             events = [SerialPrint MsgSizeUnknown, UpdateBegin 0xFFFFFFFF True,
                  UpdateWrite 2048 2048]\<rparr>) then sizeof_buffer
        else available read_fails (polls \<lparr>polls = 1, partition = 2048 :: nat, totalWritten = 2048,
             events = [SerialPrint MsgSizeUnknown, UpdateBegin 0xFFFFFFFF True,
                  UpdateWrite 2048 2048]\<rparr>))) \<le> 0"
    by (simp_all add: read_fails_def sizeof_buffer_def)
  note inst = failed_read_leaves_loop_quietly [OF read_fails_begin read_fails_iterations h]
  note parts = inst [THEN conjunct2, THEN conjunct1]
    inst [THEN conjunct2, THEN conjunct2, THEN conjunct1]
    inst [THEN conjunct2, THEN conjunct2, THEN conjunct2, THEN conjunct2, THEN conjunct1]
    inst [THEN conjunct2, THEN conjunct2, THEN conjunct2, THEN conjunct2, THEN conjunct2]
  show ?thesis
    by (intro conjI) (rule read_fails_begin read_fails_iterations poll parts)+
qed

end
